theory Spec2Isabelle
  imports Complex_Main "HOL-Library.AList" "HOL-Library.Product_Lexorder"
begin

section \<open>Values, series and frames\<close>

text \<open>
  The pipeline of \<^verbatim>\<open>assets.py\<close> works on pandas data frames. A frame is modelled
  column by column, as pandas stores it: a row count and an ordered list of named
  series. A cell is missing (\<open>Null\<close>: NaN, None and NaT alike, all of which
  \<^verbatim>\<open>isna\<close> reports), a string, a float or a timestamp.

  Floats are modelled exactly: a defined float is a rational number or one of the two
  infinities, and NaN is the missing value. Rounding, overflow and the sign of zero are
  therefore outside the model; every statement below is about the structure of the
  computation (which rows enter which window, which values are defined), not about
  rounding.
\<close>

datatype xnum = Fin rat | PInf | NInf

type_synonym f64 = "xnum option"

datatype cell = Null | Str string | Num xnum | Date int

datatype error = KeyError string | TypeError | DateParseError | CsvParseError
  | Timeout | ConnectionError

record frame =
  nrows :: nat
  cols :: "(string \<times> cell list) list"

text \<open>An exception raised by a call ends the op: \<open>bindE\<close> sequences two calls.\<close>

definition bindE :: "error + 'a \<Rightarrow> ('a \<Rightarrow> error + 'b) \<Rightarrow> error + 'b" where
  "bindE m f = (case m of Inl e \<Rightarrow> Inl e | Inr v \<Rightarrow> f v)"

text \<open>\<^verbatim>\<open>pd.DataFrame()\<close>: no rows and no columns.\<close>

definition empty_frame :: frame where
  "empty_frame = \<lparr>nrows = 0, cols = []\<rparr>"

text \<open>A frame is well formed when its column names are distinct and every series has
  one cell per row.\<close>

definition wf_frame :: "frame \<Rightarrow> bool" where
  "wf_frame df \<longleftrightarrow>
     distinct (map fst (cols df)) \<and> list_all (\<lambda>cs. length (snd cs) = nrows df) (cols df)"

text \<open>\<^verbatim>\<open>df[c]\<close> raises KeyError when the column is absent.\<close>

definition get_col :: "frame \<Rightarrow> string \<Rightarrow> error + cell list" where
  "get_col df c = (case map_of (cols df) c of None \<Rightarrow> Inl (KeyError c) | Some s \<Rightarrow> Inr s)"

text \<open>\<^verbatim>\<open>df[c] = s\<close> replaces the column in place, or appends it as the last column.\<close>

definition set_col :: "frame \<Rightarrow> string \<Rightarrow> cell list \<Rightarrow> frame" where
  "set_col df c s = df\<lparr>cols := AList.update c s (cols df)\<rparr>"

text \<open>\<^verbatim>\<open>df[[c1, ..., cn]]\<close>: a new frame with these columns in this order; KeyError
  on the first absent one.\<close>

fun lookup_cols :: "(string \<times> cell list) list \<Rightarrow> string list \<Rightarrow> error + (string \<times> cell list) list" where
  "lookup_cols cs [] = Inr []"
| "lookup_cols cs (c # rest) =
     (case map_of cs c of
        None \<Rightarrow> Inl (KeyError c)
      | Some s \<Rightarrow> (case lookup_cols cs rest of Inl e \<Rightarrow> Inl e | Inr r \<Rightarrow> Inr ((c, s) # r)))"

definition select_cols :: "frame \<Rightarrow> string list \<Rightarrow> error + frame" where
  "select_cols df cs = bindE (lookup_cols (cols df) cs) (\<lambda>r. Inr \<lparr>nrows = nrows df, cols = r\<rparr>)"

text \<open>\<^verbatim>\<open>s[mask]\<close> and \<^verbatim>\<open>df[mask]\<close>: the rows where the mask holds, in their order.\<close>

definition select :: "bool list \<Rightarrow> 'a list \<Rightarrow> 'a list" where
  "select m xs = map snd (filter fst (zip m xs))"

definition filter_rows :: "frame \<Rightarrow> bool list \<Rightarrow> frame" where
  "filter_rows df m =
     \<lparr>nrows = length (filter id m), cols = map (\<lambda>cs. (fst cs, select m (snd cs))) (cols df)\<rparr>"

definition row :: "frame \<Rightarrow> nat \<Rightarrow> cell list" where
  "row df i = map (\<lambda>cs. snd cs ! i) (cols df)"

definition rows :: "frame \<Rightarrow> cell list list" where
  "rows df = map (row df) [0..<nrows df]"

text \<open>\<^verbatim>\<open>df.rename(columns=m)\<close>.\<close>

definition rename :: "frame \<Rightarrow> (string \<times> string) list \<Rightarrow> frame" where
  "rename df m =
     df\<lparr>cols := map (\<lambda>cs. (case map_of m (fst cs) of None \<Rightarrow> fst cs | Some c' \<Rightarrow> c', snd cs)) (cols df)\<rparr>"

text \<open>\<^verbatim>\<open>isna\<close>, and \<^verbatim>\<open>duplicated\<close> with its default \<^verbatim>\<open>keep='first'\<close>: a row is a
  duplicate when an equal row stands before it (missing values compare equal there).\<close>

definition isna :: "cell \<Rightarrow> bool" where
  "isna c \<longleftrightarrow> c = Null"

fun dup_from :: "'a list \<Rightarrow> 'a list \<Rightarrow> bool list" where
  "dup_from seen [] = []"
| "dup_from seen (x # xs) = (x \<in> set seen) # dup_from (x # seen) xs"

definition duplicated :: "'a list \<Rightarrow> bool list" where
  "duplicated xs = dup_from [] xs"

text \<open>\<^verbatim>\<open>df.dropna(subset=cs)\<close>: KeyError when a column of \<open>cs\<close> is absent; otherwise
  the rows with no missing value in these columns.\<close>

definition dropna :: "frame \<Rightarrow> string list \<Rightarrow> error + frame" where
  "dropna df cs =
     bindE (select_cols df cs) (\<lambda>sub.
       Inr (filter_rows df (map (\<lambda>r. list_all (\<lambda>c. \<not> isna c) r) (rows sub))))"

text \<open>\<^verbatim>\<open>df.drop_duplicates()\<close>: over all columns, the first of equal rows is kept.\<close>

definition drop_duplicates :: "frame \<Rightarrow> frame" where
  "drop_duplicates df = filter_rows df (map Not (duplicated (rows df)))"

subsection \<open>Dates\<close>

text \<open>
  \<^verbatim>\<open>pd.to_datetime\<close> is a library function: what it makes of a string or a number
  is the parameter \<open>parse\<close> (\<open>None\<close> when the value does not parse). A missing value
  stays missing and a timestamp stays as it is. With \<^verbatim>\<open>errors="coerce"\<close> a value that
  does not parse becomes NaT; without it the call raises.
\<close>

fun to_datetime_cell :: "(cell \<Rightarrow> int option) \<Rightarrow> cell \<Rightarrow> cell option" where
  "to_datetime_cell parse Null = Some Null"
| "to_datetime_cell parse (Date d) = Some (Date d)"
| "to_datetime_cell parse c = map_option Date (parse c)"

definition coerce_cell :: "(cell \<Rightarrow> int option) \<Rightarrow> cell \<Rightarrow> cell" where
  "coerce_cell parse c = (case to_datetime_cell parse c of None \<Rightarrow> Null | Some d \<Rightarrow> d)"

definition to_datetime_coerce :: "(cell \<Rightarrow> int option) \<Rightarrow> cell list \<Rightarrow> cell list" where
  "to_datetime_coerce parse s = map (coerce_cell parse) s"

definition to_datetime :: "(cell \<Rightarrow> int option) \<Rightarrow> cell list \<Rightarrow> error + cell list" where
  "to_datetime parse s =
     (if list_all (\<lambda>c. to_datetime_cell parse c \<noteq> None) s
      then Inr (map (coerce_cell parse) s) else Inl DateParseError)"

text \<open>\<^verbatim>\<open>df["date"] > hoy\<close>: a comparison with NaT is false.\<close>

fun date_gt :: "cell \<Rightarrow> int \<Rightarrow> bool" where
  "date_gt (Date d) hoy = (d > hoy)"
| "date_gt c hoy = False"

subsection \<open>Float arithmetic\<close>

text \<open>
  Series arithmetic works on floats: a missing cell is NaN, a string or a timestamp
  as an operand raises TypeError. Division follows IEEE: a nonzero number over zero is
  an infinity, zero over zero and infinity over infinity are NaN; nothing raises.
\<close>

fun numeric :: "cell \<Rightarrow> bool" where
  "numeric Null = True"
| "numeric (Num x) = True"
| "numeric c = False"

fun f64_of :: "cell \<Rightarrow> f64" where
  "f64_of (Num x) = Some x"
| "f64_of c = None"

fun of_f64 :: "f64 \<Rightarrow> cell" where
  "of_f64 None = Null"
| "of_f64 (Some x) = Num x"

definition to_f64 :: "cell list \<Rightarrow> error + f64 list" where
  "to_f64 s = (if list_all numeric s then Inr (map f64_of s) else Inl TypeError)"

fun xdiv :: "xnum \<Rightarrow> xnum \<Rightarrow> f64" where
  "xdiv (Fin a) (Fin b) =
     (if b = 0 then (if a = 0 then None else if a > 0 then Some PInf else Some NInf)
      else Some (Fin (a / b)))"
| "xdiv (Fin a) PInf = Some (Fin 0)"
| "xdiv (Fin a) NInf = Some (Fin 0)"
| "xdiv PInf (Fin b) = (if b < 0 then Some NInf else Some PInf)"
| "xdiv NInf (Fin b) = (if b < 0 then Some PInf else Some NInf)"
| "xdiv a b = None"

fun fdiv :: "f64 \<Rightarrow> f64 \<Rightarrow> f64" where
  "fdiv (Some a) (Some b) = xdiv a b"
| "fdiv a b = None"

fun xmul :: "xnum \<Rightarrow> rat \<Rightarrow> f64" where
  "xmul (Fin a) k = Some (Fin (a * k))"
| "xmul PInf k = (if k = 0 then None else if k > 0 then Some PInf else Some NInf)"
| "xmul NInf k = (if k = 0 then None else if k > 0 then Some NInf else Some PInf)"

fun fmul :: "f64 \<Rightarrow> rat \<Rightarrow> f64" where
  "fmul (Some a) k = xmul a k"
| "fmul None k = None"

definition series_div :: "cell list \<Rightarrow> cell list \<Rightarrow> error + cell list" where
  "series_div a b =
     bindE (to_f64 a) (\<lambda>x. bindE (to_f64 b) (\<lambda>y.
       Inr (map of_f64 (map2 fdiv x y))))"

definition series_mul :: "cell list \<Rightarrow> rat \<Rightarrow> error + cell list" where
  "series_mul a k = bindE (to_f64 a) (\<lambda>x. Inr (map (\<lambda>v. of_f64 (fmul v k)) x))"

text \<open>The order of the floats, for \<^verbatim>\<open>min\<close>, \<^verbatim>\<open>max\<close> and the range test.\<close>

fun xle :: "xnum \<Rightarrow> xnum \<Rightarrow> bool" where
  "xle NInf b = True"
| "xle a PInf = True"
| "xle (Fin a) (Fin b) = (a \<le> b)"
| "xle a b = False"

text \<open>\<^verbatim>\<open>Series.min()\<close> and \<^verbatim>\<open>Series.max()\<close> skip NaN; of no value they are NaN.\<close>

fun skipna_min :: "f64 list \<Rightarrow> f64" where
  "skipna_min [] = None"
| "skipna_min (None # xs) = skipna_min xs"
| "skipna_min (Some x # xs) =
     (case skipna_min xs of None \<Rightarrow> Some x | Some y \<Rightarrow> Some (if xle x y then x else y))"

fun skipna_max :: "f64 list \<Rightarrow> f64" where
  "skipna_max [] = None"
| "skipna_max (None # xs) = skipna_max xs"
| "skipna_max (Some x # xs) =
     (case skipna_max xs of None \<Rightarrow> Some x | Some y \<Rightarrow> Some (if xle y x then x else y))"

subsection \<open>Rolling windows and groups\<close>

text \<open>
  \<^verbatim>\<open>x.rolling(w, min_periods=mp)\<close>: the window of row \<open>j\<close> holds the rows
  \<open>j - w + 1 .. j\<close> of the series that exist. pandas turns infinities into NaN before
  it aggregates, skips NaN, and gives NaN when fewer than \<open>mp\<close> values are left.
\<close>

definition window :: "nat \<Rightarrow> nat \<Rightarrow> 'a list \<Rightarrow> 'a list" where
  "window w j xs = drop (Suc j - w) (take (Suc j) xs)"

fun finite_vals :: "f64 list \<Rightarrow> rat list" where
  "finite_vals [] = []"
| "finite_vals (Some (Fin q) # xs) = q # finite_vals xs"
| "finite_vals (x # xs) = finite_vals xs"

definition rolling :: "nat \<Rightarrow> nat \<Rightarrow> (rat list \<Rightarrow> f64) \<Rightarrow> f64 list \<Rightarrow> f64 list" where
  "rolling w mp agg xs =
     map (\<lambda>j. let vs = finite_vals (window w j xs)
               in if length vs \<ge> mp then agg vs else None) [0..<length xs]"

definition mean :: "rat list \<Rightarrow> f64" where
  "mean vs = (if vs = [] then None else Some (Fin (sum_list vs / of_nat (length vs))))"

definition total :: "rat list \<Rightarrow> f64" where
  "total vs = Some (Fin (sum_list vs))"

text \<open>\<^verbatim>\<open>shift(n)\<close> on one group: every value moves \<open>n\<close> rows later.\<close>

definition shift :: "nat \<Rightarrow> cell list \<Rightarrow> cell list" where
  "shift n xs = replicate (min n (length xs)) Null @ take (length xs - n) xs"

text \<open>
  \<^verbatim>\<open>df.groupby(key)[col].transform(f)\<close> (and \<^verbatim>\<open>.shift\<close>): the rows are split by
  the value of the key, in table order and without sorting inside a group; \<open>f\<close> runs
  on each group's series; row \<open>i\<close> receives what \<open>f\<close> computed at its position in
  its group. A row whose key is missing belongs to no group and receives the
  missing value \<open>na\<close>.
\<close>

definition group_of :: "cell list \<Rightarrow> cell \<Rightarrow> 'a list \<Rightarrow> 'a list" where
  "group_of keys k vals = select (map (\<lambda>k'. k' = k) keys) vals"

definition rank :: "cell list \<Rightarrow> nat \<Rightarrow> nat" where
  "rank keys i = length (filter (\<lambda>k'. k' = keys ! i) (take i keys))"

definition groupby_transform :: "cell list \<Rightarrow> 'a \<Rightarrow> ('a list \<Rightarrow> 'a list) \<Rightarrow> 'a list \<Rightarrow> 'a list" where
  "groupby_transform keys na f vals =
     map (\<lambda>i. if keys ! i = Null then na
              else f (group_of keys (keys ! i) vals) ! rank keys i) [0..<length keys]"

section \<open>The ops of the pipeline\<close>

text \<open>
  Every op prints diagnostics; a printed line is a value of \<open>log\<close>, returned by the
  op. An op that assigns into the frame it was given (\<^verbatim>\<open>df[c] = ...\<close>) changes the
  caller's object: such an op returns the frame as it leaves it, next to its result.
\<close>

datatype log =
    NoDescargado nat
  | Descargado nat
  | AlertaFechas nat
  | FechasValidas
  | AlertaNulos nat
  | SinNulos
  | AlertaDuplicados nat
  | SinDuplicados
  | Procesados nat
  | DentroRango f64 f64
  | FueraRango f64 f64
  | ExcelGenerado string

subsection \<open>leer_datos\<close>

text \<open>
  What \<^verbatim>\<open>requests.get(url, timeout=10)\<close> meets is the input: a response with its
  status code and body, a timeout, or a connection failure. The last two are raised by
  the call as exceptions, and so is what \<^verbatim>\<open>pd.read_csv\<close> (the parameter
  \<open>read_csv\<close>) raises on a body it cannot parse; the op has no handler.
\<close>

datatype transport = Response nat string | TimedOut | ConnectionFailed

definition leer_datos :: "(string \<Rightarrow> error + frame) \<Rightarrow> transport \<Rightarrow> error + (frame \<times> log list)" where
  "leer_datos read_csv t =
     (case t of
        TimedOut \<Rightarrow> Inl Timeout
      | ConnectionFailed \<Rightarrow> Inl ConnectionError
      | Response status_code body \<Rightarrow>
          if status_code \<noteq> 200 then Inr (empty_frame, [NoDescargado status_code])
          else bindE (read_csv body) (\<lambda>df. Inr (df, [Descargado (nrows df)])))"

subsection \<open>chequear_datos\<close>

definition columnas_clave :: "string list" where
  "columnas_clave = [''country'', ''date'', ''population'']"

text \<open>\<open>hoy\<close> is \<^verbatim>\<open>datetime.today()\<close>, read from the clock. The op assigns the parsed
  dates into its argument and returns that same frame.\<close>

definition chequear_datos :: "(cell \<Rightarrow> int option) \<Rightarrow> int \<Rightarrow> frame \<Rightarrow> error + (frame \<times> log list)" where
  "chequear_datos parse hoy df0 =
     bindE (get_col df0 ''date'') (\<lambda>raw.
     let df = set_col df0 ''date'' (to_datetime_coerce parse raw) in
     bindE (get_col df ''date'') (\<lambda>date.
     let fechas_invalidas = filter_rows df (map (\<lambda>c. date_gt c hoy) date);
         log1 = (if nrows fechas_invalidas > 0 then AlertaFechas (nrows fechas_invalidas)
                 else FechasValidas) in
     bindE (select_cols df columnas_clave) (\<lambda>clave.
     let nulos = sum_list (map (\<lambda>cs. length (filter isna (snd cs))) (cols clave));
         log2 = (if nulos > 0 then AlertaNulos nulos else SinNulos) in
     bindE (select_cols df [''country'', ''date'']) (\<lambda>sub.
     let duplicados = length (filter id (duplicated (rows sub)));
         log3 = (if duplicados > 0 then AlertaDuplicados duplicados else SinDuplicados) in
     Inr (df, [log1, log2, log3])))))"

subsection \<open>datos_procesados\<close>

definition paises :: "cell list" where
  "paises = [Str ''Ecuador'', Str ''Argentina'']"

definition columnas :: "string list" where
  "columnas = [''country'', ''date'', ''new_cases'', ''people_vaccinated'', ''population'']"

text \<open>The op builds new frames only; its argument is left as it was.\<close>

definition datos_procesados :: "frame \<Rightarrow> error + (frame \<times> log list)" where
  "datos_procesados df =
     bindE (dropna df [''new_cases'', ''people_vaccinated'']) (\<lambda>d1.
     let d2 = drop_duplicates d1 in
     bindE (get_col d2 ''country'') (\<lambda>country.
     let df_proc = filter_rows d2 (map (\<lambda>c. c \<in> set paises) country) in
     bindE (select_cols df_proc columnas) (\<lambda>out.
     Inr (out, [Procesados (nrows df_proc)]))))"

subsection \<open>metrica_incidencia_7d and metrica_factor_crec_7d\<close>

text \<open>The name of the country column in the reports: \<open>pais\<close> with an acute accent on the \<open>i\<close>, as its UTF-8 bytes.\<close>

definition pais :: string where
  "pais = ''pa'' @ [CHR 0xC3, CHR 0xAD] @ ''s''"

text \<open>
  Both ops assign columns into the frame they are given and return a projection of
  it under new names. The first component of the result is the argument as the op
  leaves it, the second the returned table.
\<close>

definition metrica_incidencia_7d :: "(cell \<Rightarrow> int option) \<Rightarrow> frame \<Rightarrow> error + (frame \<times> frame)" where
  "metrica_incidencia_7d parse df0 =
     bindE (get_col df0 ''date'') (\<lambda>raw.
     bindE (to_datetime parse raw) (\<lambda>date.
     let df1 = set_col df0 ''date'' date in
     bindE (get_col df1 ''new_cases'') (\<lambda>new_cases.
     bindE (get_col df1 ''population'') (\<lambda>population.
     bindE (series_div new_cases population) (\<lambda>q.
     bindE (series_mul q 100000) (\<lambda>diaria.
     let df2 = set_col df1 ''incidencia_diaria'' diaria in
     bindE (get_col df2 ''country'') (\<lambda>country.
     bindE (get_col df2 ''incidencia_diaria'') (\<lambda>x.
     bindE (to_f64 x) (\<lambda>xf.
     let df3 = set_col df2 ''incidencia_7d''
                 (map of_f64 (groupby_transform country None (rolling 7 1 mean) xf)) in
     bindE (select_cols df3 [''date'', ''country'', ''incidencia_7d'']) (\<lambda>out.
     Inr (df3, rename out [(''date'', ''fecha''), (''country'', pais)])))))))))))"

definition metrica_factor_crec_7d :: "(cell \<Rightarrow> int option) \<Rightarrow> frame \<Rightarrow> error + (frame \<times> frame)" where
  "metrica_factor_crec_7d parse df0 =
     bindE (get_col df0 ''date'') (\<lambda>raw.
     bindE (to_datetime parse raw) (\<lambda>date.
     let df1 = set_col df0 ''date'' date in
     bindE (get_col df1 ''country'') (\<lambda>country.
     bindE (get_col df1 ''new_cases'') (\<lambda>new_cases.
     bindE (to_f64 new_cases) (\<lambda>nf.
     let df2 = set_col df1 ''casos_semana_actual''
                 (map of_f64 (groupby_transform country None (rolling 7 7 total) nf)) in
     bindE (get_col df2 ''country'') (\<lambda>country2.
     bindE (get_col df2 ''casos_semana_actual'') (\<lambda>actual.
     let df3 = set_col df2 ''casos_semana_prev''
                 (groupby_transform country2 Null (shift 7) actual) in
     bindE (get_col df3 ''casos_semana_actual'') (\<lambda>a.
     bindE (get_col df3 ''casos_semana_prev'') (\<lambda>p.
     bindE (series_div a p) (\<lambda>factor.
     let df4 = set_col df3 ''factor_crec_7d'' factor in
     bindE (select_cols df4 [''date'', ''country'', ''casos_semana_actual'', ''factor_crec_7d''])
       (\<lambda>out.
     Inr (df4, rename out [(''date'', ''semana_fin''), (''country'', pais),
                           (''casos_semana_actual'', ''casos_semana'')]))))))))))))"

subsection \<open>chequeo_incidencia\<close>

text \<open>\<^verbatim>\<open>0 <= v <= 2000\<close>: false when \<open>v\<close> is NaN.\<close>

fun en_rango :: "f64 \<Rightarrow> bool" where
  "en_rango None = False"
| "en_rango (Some v) = (xle (Fin 0) v \<and> xle v (Fin 2000))"

text \<open>The op reads one column and prints; it assigns nothing and returns nothing.\<close>

definition chequeo_incidencia :: "frame \<Rightarrow> error + log" where
  "chequeo_incidencia incidencia =
     bindE (get_col incidencia ''incidencia_7d'') (\<lambda>s.
     bindE (to_f64 s) (\<lambda>v.
     let min_val = skipna_min v; max_val = skipna_max v in
     Inr (if en_rango min_val \<and> en_rango max_val then DentroRango min_val max_val
          else FueraRango min_val max_val)))"

subsection \<open>reporte_excel_covid\<close>

text \<open>A sheet written by \<^verbatim>\<open>to_excel(..., index=False)\<close>: its name, its header row and
  its data rows. The artifact is the list of sheets in the order they are written.\<close>

type_synonym sheet = "string \<times> string list \<times> cell list list"

definition to_excel :: "frame \<Rightarrow> string \<Rightarrow> sheet" where
  "to_excel df sheet_name = (sheet_name, map fst (cols df), rows df)"

definition output_file :: string where
  "output_file = ''reporte_covid.xlsx''"

definition reporte_excel_covid :: "frame \<Rightarrow> frame \<Rightarrow> frame \<Rightarrow> string \<times> sheet list \<times> log list" where
  "reporte_excel_covid df_proc incidencia factor_crec =
     (output_file,
      [to_excel df_proc ''datos_procesados'',
       to_excel incidencia ''incidencia_7d'',
       to_excel factor_crec ''factor_crec_7d''],
      [ExcelGenerado output_file])"

subsection \<open>pipeline_covid\<close>

text \<open>
  The job hands each op's output to the ops that consume it. How it does so is the
  orchestrator's configuration, not this repository's code: with an in-memory hand-off
  every consumer receives the very object the producer returned (\<open>SameObject\<close>), with
  a serialising one each consumer receives a copy of its own (\<open>FreshCopy\<close>). The job
  is modelled for both; the ops run in the order the job lists them.
\<close>

datatype handoff = SameObject | FreshCopy

definition pipeline_post_reader ::
  "handoff \<Rightarrow> (cell \<Rightarrow> int option) \<Rightarrow> int \<Rightarrow> frame \<Rightarrow> error + (string \<times> sheet list \<times> log list)" where
  "pipeline_post_reader h parse hoy df_raw =
     bindE (chequear_datos parse hoy df_raw) (\<lambda>r1.
     bindE (datos_procesados (fst r1)) (\<lambda>r2.
     let df_proc = fst r2 in
     bindE (metrica_incidencia_7d parse df_proc) (\<lambda>r3.
     let df_proc1 = (if h = SameObject then fst r3 else df_proc); incidencia = snd r3 in
     bindE (metrica_factor_crec_7d parse df_proc1) (\<lambda>r4.
     let df_proc2 = (if h = SameObject then fst r4 else df_proc); factor_crec = snd r4 in
     bindE (chequeo_incidencia incidencia) (\<lambda>l.
     let r5 = reporte_excel_covid df_proc2 incidencia factor_crec in
     Inr (fst r5, fst (snd r5), snd r1 @ snd r2 @ [l] @ snd (snd r5)))))))"

definition pipeline_covid ::
  "handoff \<Rightarrow> (string \<Rightarrow> error + frame) \<Rightarrow> (cell \<Rightarrow> int option) \<Rightarrow> int \<Rightarrow> transport
     \<Rightarrow> error + (string \<times> sheet list \<times> log list)" where
  "pipeline_covid h read_csv parse hoy t =
     bindE (leer_datos read_csv t) (\<lambda>r0.
     bindE (pipeline_post_reader h parse hoy (fst r0)) (\<lambda>r.
     Inr (fst r, fst (snd r), snd r0 @ snd (snd r))))"

section \<open>Reading the results\<close>

text \<open>The column \<open>c\<close> of the table an op returns, and of the argument as the op
  leaves it; an error of the op is passed on.\<close>

definition result_col :: "error + (frame \<times> frame) \<Rightarrow> string \<Rightarrow> error + cell list" where
  "result_col r c = bindE r (\<lambda>p. get_col (snd p) c)"

definition arg_col :: "error + (frame \<times> 'b) \<Rightarrow> string \<Rightarrow> error + cell list" where
  "arg_col r c = bindE r (\<lambda>p. get_col (fst p) c)"

text \<open>The sheets of the artifact a run writes, each with its header row, and with its
  data rows.\<close>

definition headers :: "error + (string \<times> sheet list \<times> log list) \<Rightarrow> error + (string \<times> string list) list" where
  "headers r = bindE r (\<lambda>p. Inr (map (\<lambda>s. (fst s, fst (snd s))) (fst (snd p))))"

definition sheets :: "error + (string \<times> sheet list \<times> log list) \<Rightarrow> error + sheet list" where
  "sheets r = bindE r (\<lambda>p. Inr (fst (snd p)))"

section \<open>Cleaned tables\<close>

text \<open>The series of a column that is known to be there.\<close>

definition col :: "frame \<Rightarrow> string \<Rightarrow> cell list" where
  "col df c = (case map_of (cols df) c of None \<Rightarrow> [] | Some s \<Rightarrow> s)"

text \<open>
  A cleaned table is what the cleaner returns within the pipeline: the five columns of
  \<open>columnas\<close>; a country of the configured set in every row; dates that the quality
  gate has turned into timestamps or NaT; \<open>new_cases\<close> a number and
  \<open>people_vaccinated\<close> present in every row (the cleaner drops the other rows);
  \<open>population\<close> a float or missing.
\<close>

fun datetime_cell :: "cell \<Rightarrow> bool" where
  "datetime_cell Null = True"
| "datetime_cell (Date d) = True"
| "datetime_cell c = False"

fun number_cell :: "cell \<Rightarrow> bool" where
  "number_cell (Num (Fin q)) = True"
| "number_cell c = False"

definition cleaned_table :: "frame \<Rightarrow> bool" where
  "cleaned_table df \<longleftrightarrow>
     wf_frame df \<and> map fst (cols df) = columnas
     \<and> list_all (\<lambda>c. c \<in> set paises) (col df ''country'')
     \<and> list_all datetime_cell (col df ''date'')
     \<and> list_all number_cell (col df ''new_cases'')
     \<and> list_all (\<lambda>c. \<not> isna c) (col df ''people_vaccinated'')
     \<and> list_all numeric (col df ''population'')"

text \<open>
  A raw table as the reader returns it for the dataset: well formed, with the five
  columns the pipeline uses; \<open>new_cases\<close> a number or missing, \<open>population\<close> a float
  or missing; the other three columns hold any cells.
\<close>

fun number_or_null :: "cell \<Rightarrow> bool" where
  "number_or_null Null = True"
| "number_or_null c = number_cell c"

definition raw_table :: "frame \<Rightarrow> bool" where
  "raw_table df \<longleftrightarrow>
     wf_frame df \<and> list_all (\<lambda>k. map_of (cols df) k \<noteq> None) columnas
     \<and> list_all number_or_null (col df ''new_cases'')
     \<and> list_all numeric (col df ''population'')"

text \<open>The rows of one entity, in table order.\<close>

definition entity_rows :: "frame \<Rightarrow> cell \<Rightarrow> cell list list" where
  "entity_rows df k = group_of (col df ''country'') k (rows df)"

text \<open>The sum of the defined values in the window of 7 rows that ends at row \<open>j\<close> of a
  group's series.\<close>

definition suma_7 :: "f64 list \<Rightarrow> nat \<Rightarrow> rat" where
  "suma_7 g j = sum_list (finite_vals (window 7 j g))"

subsection \<open>The specification's ordering by date\<close>

text \<open>
  The specification orders every entity's rows by date, ascending and stable, before it
  computes a window. \<open>por_fecha dates vals\<close> is that ordering of a series by the dates
  of its rows, with rows without a date last, as pandas sorts them. The ops of
  \<^verbatim>\<open>assets.py\<close> call no such function.
\<close>

fun date_key :: "cell \<Rightarrow> nat \<times> int" where
  "date_key (Date d) = (0, d)"
| "date_key c = (1, 0)"

definition por_fecha :: "cell list \<Rightarrow> 'a list \<Rightarrow> 'a list" where
  "por_fecha dates vals = map snd (sort_key (\<lambda>p. date_key (fst p)) (zip dates vals))"

text \<open>The defined values of a float series.\<close>

fun definidos :: "f64 list \<Rightarrow> xnum list" where
  "definidos [] = []"
| "definidos (None # xs) = definidos xs"
| "definidos (Some x # xs) = x # definidos xs"

text \<open>Two row masks applied one after the other are one mask: the second mask speaks
  about the rows that the first has kept.\<close>

fun mask_then :: "bool list \<Rightarrow> bool list \<Rightarrow> bool list" where
  "mask_then [] m2 = []"
| "mask_then (False # m1) m2 = False # mask_then m1 m2"
| "mask_then (True # m1) [] = False # mask_then m1 []"
| "mask_then (True # m1) (b # m2) = b # mask_then m1 m2"

text \<open>The column names of the argument as an op leaves it, and of the table the cleaner
  returns.\<close>

definition arg_header :: "error + (frame \<times> 'b) \<Rightarrow> error + string list" where
  "arg_header r = bindE r (\<lambda>p. Inr (map fst (cols (fst p))))"

section \<open>Example inputs\<close>

text \<open>A reader of CSV text that accepts one body and refuses every other.\<close>

definition csv_demo :: "string \<Rightarrow> error + frame" where
  "csv_demo body =
     (if body = ''country'' then Inr \<lparr>nrows = 0, cols = [(''country'', [])]\<rparr>
      else Inl CsvParseError)"

text \<open>A cleaned table written row by row: country, date, new cases, population; one
  person vaccinated in every row.\<close>

definition tabla :: "(string \<times> int \<times> rat \<times> rat) list \<Rightarrow> frame" where
  "tabla rs =
     \<lparr>nrows = length rs,
      cols = [(''country'', map (\<lambda>r. Str (fst r)) rs),
              (''date'', map (\<lambda>r. Date (fst (snd r))) rs),
              (''new_cases'', map (\<lambda>r. Num (Fin (fst (snd (snd r))))) rs),
              (''people_vaccinated'', map (\<lambda>r. Num (Fin 1)) rs),
              (''population'', map (\<lambda>r. Num (Fin (snd (snd (snd r))))) rs)]\<rparr>"

text \<open>The scenario of the specification: Ecuador on 2024-01-01 and 2024-01-02 (days
  19723 and 19724 of the epoch), 100 and 200 new cases, a population of 1000000; and
  the same two rows in the opposite order.\<close>

definition ecuador2 :: frame where
  "ecuador2 = tabla [(''Ecuador'', 19723, 100, 1000000), (''Ecuador'', 19724, 200, 1000000)]"

definition ecuador2_desc :: frame where
  "ecuador2_desc = tabla [(''Ecuador'', 19724, 200, 1000000), (''Ecuador'', 19723, 100, 1000000)]"

text \<open>One entity's series, one row a day from day 0, with a population of 100000.\<close>

definition serie :: "string \<Rightarrow> rat list \<Rightarrow> frame" where
  "serie c ncs = tabla (map (\<lambda>j. (c, int j, ncs ! j, 100000)) [0..<length ncs])"

text \<open>Seven days of one case a day; a fortnight of one and then two cases a day; a
  fortnight of no case and then one case a day.\<close>

definition semana7 :: frame where
  "semana7 = serie ''Ecuador'' [1, 1, 1, 1, 1, 1, 1]"

definition quincena :: frame where
  "quincena = serie ''Ecuador'' [1, 1, 1, 1, 1, 1, 1, 2, 2, 2, 2, 2, 2, 2]"

definition quincena0 :: frame where
  "quincena0 = serie ''Ecuador'' [0, 0, 0, 0, 0, 0, 0, 1, 1, 1, 1, 1, 1, 1]"

text \<open>A date parser that parses nothing: the example tables hold timestamps already,
  which need no parsing.\<close>

definition no_parse :: "cell \<Rightarrow> int option" where
  "no_parse c = None"

text \<open>Two tables with the same two Ecuador rows: in the second, the three Argentina
  rows of the first are permuted and one of them is deleted.\<close>

definition mezcla :: frame where
  "mezcla = tabla [(''Ecuador'', 0, 10, 100000), (''Argentina'', 0, 5, 100000),
                   (''Ecuador'', 1, 20, 100000), (''Argentina'', 1, 7, 100000),
                   (''Argentina'', 2, 9, 100000)]"

definition mezcla_b :: frame where
  "mezcla_b = tabla [(''Ecuador'', 0, 10, 100000), (''Argentina'', 2, 9, 100000),
                     (''Ecuador'', 1, 20, 100000), (''Argentina'', 0, 5, 100000)]"

text \<open>Incidence tables: one without rows, one within the range with a missing value,
  one with a value above the range.\<close>

definition inc_vacia :: frame where
  "inc_vacia = \<lparr>nrows = 0, cols = [(''fecha'', []), (pais, []), (''incidencia_7d'', [])]\<rparr>"

definition inc_normal :: frame where
  "inc_normal = \<lparr>nrows = 3,
     cols = [(''fecha'', [Date 0, Date 1, Date 2]),
             (pais, [Str ''Ecuador'', Str ''Ecuador'', Str ''Ecuador'']),
             (''incidencia_7d'', [Num (Fin 10), Null, Num (Fin 2000)])]\<rparr>"

definition inc_alta :: frame where
  "inc_alta = \<lparr>nrows = 2,
     cols = [(''fecha'', [Date 0, Date 1]),
             (pais, [Str ''Ecuador'', Str ''Ecuador'']),
             (''incidencia_7d'', [Num (Fin 10), Num (Fin 2500)])]\<rparr>"

text \<open>A raw table of two rows, the second with a date that does not parse, and a date
  parser that knows one date.\<close>

definition fechas :: "cell \<Rightarrow> int option" where
  "fechas c = (if c = Str ''2024-01-01'' then Some 19723 else None)"

definition cruda :: frame where
  "cruda = \<lparr>nrows = 2,
     cols = [(''country'', [Str ''Ecuador'', Str ''Ecuador'']),
             (''date'', [Str ''2024-01-01'', Str ''sin fecha'']),
             (''new_cases'', [Num (Fin 100), Num (Fin 200)]),
             (''people_vaccinated'', [Num (Fin 1), Num (Fin 2)]),
             (''population'', [Num (Fin 1000000), Num (Fin 1000000)])]\<rparr>"

text \<open>A table without rows that has the five columns, as a CSV file with a header line
  only gives.\<close>

definition cabecera :: frame where
  "cabecera = \<lparr>nrows = 0, cols = map (\<lambda>k. (k, [])) columnas\<rparr>"

section \<open>Sequencing and column access\<close>

lemma bindE_Inl [simp]: "bindE (Inl e) f = Inl e"
  by (simp add: bindE_def)

lemma bindE_Inr [simp]: "bindE (Inr v) f = f v"
  by (simp add: bindE_def)

lemma get_col_Inr_iff: "get_col df c = Inr s \<longleftrightarrow> map_of (cols df) c = Some s"
  by (simp add: get_col_def split: option.splits)

lemma get_col_set_col [simp]:
  "get_col (set_col df c s) c' = (if c' = c then Inr s else get_col df c')"
  by (simp add: get_col_def set_col_def update_conv')

lemma nrows_set_col [simp]: "nrows (set_col df c s) = nrows df"
  by (simp add: set_col_def)

section \<open>The empty table\<close>

text \<open>
  Claim C1 (every stage tolerates a zero-row table, and the pipeline after the reader
  turns an empty table into an artifact of three header-only sheets). The table the
  reader itself returns on a failed download is \<^verbatim>\<open>pd.DataFrame()\<close>, which has no
  columns: on it the quality gate, the cleaner, both metric derivations and the
  validator raise KeyError, and so does the pipeline, whatever the hand-off, the date
  parser and the day are. No artifact is written.
\<close>

theorem empty_table_raises:
  "chequear_datos parse hoy empty_frame = Inl (KeyError ''date'')
   \<and> datos_procesados empty_frame = Inl (KeyError ''new_cases'')
   \<and> metrica_incidencia_7d parse empty_frame = Inl (KeyError ''date'')
   \<and> metrica_factor_crec_7d parse empty_frame = Inl (KeyError ''date'')
   \<and> chequeo_incidencia empty_frame = Inl (KeyError ''incidencia_7d'')
   \<and> pipeline_post_reader h parse hoy empty_frame = Inl (KeyError ''date'')
   \<and> pipeline_covid h read_csv parse hoy (Response 404 body) = Inl (KeyError ''date'')"
  by (simp add: chequear_datos_def datos_procesados_def metrica_incidencia_7d_def
      metrica_factor_crec_7d_def chequeo_incidencia_def pipeline_post_reader_def
      pipeline_covid_def leer_datos_def
      empty_frame_def get_col_def dropna_def select_cols_def)

section \<open>The source reader\<close>

text \<open>
  Claim C9, as amended: for every status other than 200 the reader returns the empty
  table and does not raise; a timeout or a connection failure of the transport, and
  a body that the CSV reader refuses, are raised to the caller. On status 200 with a
  body that parses, the parsed table is returned as it is.
\<close>

theorem leer_datos_outcomes:
  "(status \<noteq> 200 \<longrightarrow>
      leer_datos read_csv (Response status body) = Inr (empty_frame, [NoDescargado status]))
   \<and> leer_datos read_csv TimedOut = Inl Timeout
   \<and> leer_datos read_csv ConnectionFailed = Inl ConnectionError
   \<and> (read_csv body' = Inl e \<longrightarrow> leer_datos read_csv (Response 200 body') = Inl e)
   \<and> (read_csv body'' = Inr df \<longrightarrow>
        leer_datos read_csv (Response 200 body'') = Inr (df, [Descargado (nrows df)]))"
  by (simp add: leer_datos_def)

theorem leer_datos_outcomes_witness:
  "(404::nat) \<noteq> 200
   \<and> leer_datos csv_demo (Response 404 ''Not Found'') = Inr (empty_frame, [NoDescargado 404])
   \<and> leer_datos csv_demo TimedOut = Inl Timeout
   \<and> leer_datos csv_demo ConnectionFailed = Inl ConnectionError
   \<and> csv_demo ''<html>'' = Inl CsvParseError
   \<and> leer_datos csv_demo (Response 200 ''<html>'') = Inl CsvParseError
   \<and> csv_demo ''country'' = Inr \<lparr>nrows = 0, cols = [(''country'', [])]\<rparr>
   \<and> leer_datos csv_demo (Response 200 ''country'')
       = Inr (\<lparr>nrows = 0, cols = [(''country'', [])]\<rparr>, [Descargado 0])"
  using leer_datos_outcomes [of 404 csv_demo "''Not Found''" "''<html>''" CsvParseError
      "''country''" "\<lparr>nrows = 0, cols = [(''country'', [])]\<rparr>"]
  by (simp add: csv_demo_def)

text \<open>The claim as stated fails: a timeout is raised, and so is a parse error of the
  payload.\<close>

theorem leer_datos_raises:
  "leer_datos csv_demo TimedOut = Inl Timeout
   \<and> leer_datos csv_demo (Response 200 ''<html>'') = Inl CsvParseError"
  by (simp add: leer_datos_def csv_demo_def)

section \<open>Masks, groups and windows\<close>

lemma select_Nil [simp]: "select [] xs = []" "select m [] = []"
  by (simp_all add: select_def)

lemma select_Cons [simp]:
  "select (b # m) (x # xs) = (if b then x # select m xs else select m xs)"
  by (simp add: select_def)

lemma select_append:
  "length m = length xs \<Longrightarrow> select (m @ m') (xs @ xs') = select m xs @ select m' xs'"
  by (simp add: select_def)

lemma select_map: "select m (map f xs) = map f (select m xs)"
  by (induction m arbitrary: xs) (case_tac xs; simp)+

lemma length_select:
  "length m = length xs \<Longrightarrow> length (select m xs) = length (filter id m)"
  by (induction m arbitrary: xs) (case_tac xs; simp)+

lemma select_cong:
  "length xs = length m \<Longrightarrow> length ys = length m
   \<Longrightarrow> (\<And>i. i < length m \<Longrightarrow> m ! i \<Longrightarrow> xs ! i = ys ! i)
   \<Longrightarrow> select m xs = select m ys"
proof (induction m arbitrary: xs ys)
  case Nil
  then show ?case by simp
next
  case (Cons b m)
  then obtain x xs' y ys' where xs: "xs = x # xs'" and ys: "ys = y # ys'"
    by (metis length_Suc_conv)
  have tl: "select m xs' = select m ys'"
  proof (rule Cons.IH)
    show "length xs' = length m" using Cons.prems(1) xs by simp
    show "length ys' = length m" using Cons.prems(2) ys by simp
    fix i assume "i < length m" "m ! i"
    then show "xs' ! i = ys' ! i"
      using Cons.prems(3) [of "Suc i"] xs ys by simp
  qed
  have hd: "b \<Longrightarrow> x = y"
    using Cons.prems(3) [of 0] xs ys by simp
  show ?case using tl hd xs ys by simp
qed

lemma length_group_of:
  "length vals = length keys \<Longrightarrow> length (group_of keys k vals) = length (filter (\<lambda>k'. k' = k) keys)"
  by (simp add: group_of_def length_select filter_map comp_def)

lemma select_rank:
  "length (filter P keys) \<le> length F
   \<Longrightarrow> select (map P keys) (map (\<lambda>i. F ! length (filter P (take i keys))) [0..<length keys])
       = take (length (filter P keys)) F"
proof (induction keys rule: rev_induct)
  case Nil
  then show ?case by simp
next
  case (snoc x ks)
  let ?n = "length ks"
  have pre: "map (\<lambda>i. F ! length (filter P (take i (ks @ [x])))) [0..<?n]
             = map (\<lambda>i. F ! length (filter P (take i ks))) [0..<?n]"
    by (rule map_cong) auto
  have ih: "select (map P ks) (map (\<lambda>i. F ! length (filter P (take i ks))) [0..<?n])
            = take (length (filter P ks)) F"
    using snoc by simp
  have split: "map (\<lambda>i. F ! length (filter P (take i (ks @ [x])))) [0..<length (ks @ [x])]
               = map (\<lambda>i. F ! length (filter P (take i ks))) [0..<?n] @ [F ! length (filter P ks)]"
    using pre by simp
  show ?case
  proof (cases "P x")
    case True
    then have "length (filter P ks) < length F" using snoc.prems by simp
    then show ?thesis
      unfolding split using True ih by (simp add: select_append take_Suc_conv_app_nth)
  next
    case False
    then show ?thesis
      unfolding split using ih by (simp add: select_append)
  qed
qed

lemma group_of_transform:
  assumes k: "k \<noteq> Null" and len: "length vals = length keys"
    and f: "\<And>xs. length (f xs) = length xs"
  shows "group_of keys k (groupby_transform keys na f vals) = f (group_of keys k vals)"
proof -
  let ?P = "\<lambda>k'. k' = k"
  let ?F = "f (group_of keys k vals)"
  have lenF: "length ?F = length (filter ?P keys)"
    using f len by (simp add: length_group_of)
  have "select (map ?P keys) (groupby_transform keys na f vals)
        = select (map ?P keys) (map (\<lambda>i. ?F ! length (filter ?P (take i keys))) [0..<length keys])"
  proof (rule select_cong)
    fix i assume i: "i < length (map ?P keys)" and m: "map ?P keys ! i"
    then have ki: "keys ! i = k" by simp
    show "groupby_transform keys na f vals ! i
          = map (\<lambda>i. ?F ! length (filter ?P (take i keys))) [0..<length keys] ! i"
      using i ki k by (simp add: groupby_transform_def rank_def)
  qed (simp_all add: groupby_transform_def)
  also have "\<dots> = take (length (filter ?P keys)) ?F"
    by (rule select_rank) (simp add: lenF)
  also have "\<dots> = ?F" by (simp add: lenF)
  finally show ?thesis by (simp add: group_of_def)
qed

lemma transform_nth:
  "i < length keys \<Longrightarrow> keys ! i \<noteq> Null
   \<Longrightarrow> groupby_transform keys na f vals ! i = f (group_of keys (keys ! i) vals) ! rank keys i"
  by (simp add: groupby_transform_def)

lemma length_transform [simp]: "length (groupby_transform keys na f vals) = length keys"
  by (simp add: groupby_transform_def)

lemma length_rolling [simp]: "length (rolling w mp agg xs) = length xs"
  by (simp add: rolling_def)

lemma length_shift [simp]: "length (shift n xs) = length xs"
  by (simp add: shift_def)

lemma rank_less:
  assumes "i < length keys" "length vals = length keys"
  shows "rank keys i < length (group_of keys (keys ! i) vals)"
proof -
  let ?P = "\<lambda>k'. k' = keys ! i"
  have "keys = take i keys @ keys ! i # drop (Suc i) keys"
    using assms(1) by (simp add: id_take_nth_drop)
  then have "filter ?P keys = filter ?P (take i keys) @ keys ! i # filter ?P (drop (Suc i) keys)"
    by (metis (mono_tags, lifting) filter.simps(2) filter_append)
  then have "length (filter ?P (take i keys)) < length (filter ?P keys)"
    by simp
  then show ?thesis using assms(2) by (simp add: rank_def length_group_of)
qed

lemma group_of_rank_nth:
  assumes "i < length keys" "length vals = length keys"
  shows "group_of keys (keys ! i) vals ! rank keys i = vals ! i"
proof -
  let ?P = "\<lambda>k'. k' = keys ! i"
  have k: "keys = take i keys @ keys ! i # drop (Suc i) keys"
    using assms(1) by (simp add: id_take_nth_drop)
  have v: "vals = take i vals @ vals ! i # drop (Suc i) vals"
    using assms by (simp add: id_take_nth_drop)
  have "select (map ?P keys) vals
        = select (map ?P (take i keys) @ map ?P (keys ! i # drop (Suc i) keys))
            (take i vals @ vals ! i # drop (Suc i) vals)"
    using k v by (metis map_append)
  also have "\<dots> = select (map ?P (take i keys)) (take i vals)
                  @ vals ! i # select (map ?P (drop (Suc i) keys)) (drop (Suc i) vals)"
    using assms by (simp add: select_append)
  finally have "select (map ?P keys) vals ! length (select (map ?P (take i keys)) (take i vals))
                = vals ! i"
    by (simp add: nth_append)
  moreover have "length (select (map ?P (take i keys)) (take i vals)) = rank keys i"
    using assms by (simp add: length_select rank_def filter_map comp_def)
  ultimately show ?thesis by (simp add: group_of_def)
qed

lemma rolling_nth:
  "j < length xs \<Longrightarrow>
   rolling w mp agg xs ! j
     = (if mp \<le> length (finite_vals (window w j xs)) then agg (finite_vals (window w j xs)) else None)"
  by (simp add: rolling_def Let_def)

lemma length_window: "j < length xs \<Longrightarrow> length (window w j xs) = min w (Suc j)"
  by (auto simp add: window_def)

lemma set_window: "set (window w j xs) \<subseteq> set xs"
  unfolding window_def by (meson set_drop_subset set_take_subset subset_trans)

lemma nth_in_window: "j < length xs \<Longrightarrow> 0 < w \<Longrightarrow> xs ! j \<in> set (window w j xs)"
proof -
  assume j: "j < length xs" and w: "0 < w"
  have "take (Suc j) xs = take j xs @ [xs ! j]"
    using j by (simp add: take_Suc_conv_app_nth)
  moreover have "Suc j - w \<le> j" using w by simp
  ultimately show ?thesis using j w by (simp add: window_def min_def)
qed

lemma finite_vals_mem: "Some (Fin q) \<in> set xs \<Longrightarrow> q \<in> set (finite_vals xs)"
  by (induction xs rule: finite_vals.induct) auto

lemma length_finite_vals: "length (finite_vals xs) \<le> length xs"
  by (induction xs rule: finite_vals.induct) auto

lemma finite_vals_all:
  "list_all (\<lambda>x. \<exists>q. x = Some (Fin q)) xs \<Longrightarrow> length (finite_vals xs) = length xs"
  by (induction xs rule: finite_vals.induct) auto

lemma shift_nth:
  "r < length xs \<Longrightarrow> shift n xs ! r = (if r < n then Null else xs ! (r - n))"
  by (auto simp add: shift_def nth_append min_def)

section \<open>The metric ops in closed form\<close>

lemma numeric_of_f64 [simp]: "numeric (of_f64 v)"
  by (cases v) simp_all

lemma f64_of_of_f64 [simp]: "f64_of (of_f64 v) = v"
  by (cases v) simp_all

lemma to_f64_of_f64 [simp]: "to_f64 (map of_f64 xs) = Inr xs"
  by (simp add: to_f64_def list_all_iff comp_def)

lemma to_f64_of_f64' [simp]: "to_f64 (map (\<lambda>v. of_f64 (g v)) xs) = Inr (map g xs)"
  by (simp add: to_f64_def list_all_iff comp_def)

lemma to_f64_numeric: "list_all numeric s \<Longrightarrow> to_f64 s = Inr (map f64_of s)"
  by (simp add: to_f64_def)

lemma datetime_cell_parse: "datetime_cell c \<Longrightarrow> to_datetime_cell parse c = Some c"
  by (cases c) simp_all

lemma to_datetime_id: "list_all datetime_cell s \<Longrightarrow> to_datetime parse s = Inr s"
proof -
  assume a: "list_all datetime_cell s"
  then have "list_all (\<lambda>c. to_datetime_cell parse c \<noteq> None) s"
    by (simp add: list_all_iff datetime_cell_parse)
  moreover have "map (coerce_cell parse) s = s"
    using a by (simp add: list_all_iff coerce_cell_def datetime_cell_parse map_idI)
  ultimately show ?thesis by (simp add: to_datetime_def)
qed

lemma incidencia_closed:
  assumes c: "cols df = [(''country'', c0), (''date'', c1), (''new_cases'', c2),
                         (''people_vaccinated'', c3), (''population'', c4)]"
    and d: "list_all datetime_cell c1" and n: "list_all numeric c2" and p: "list_all numeric c4"
  shows "metrica_incidencia_7d parse df =
     Inr (df\<lparr>cols := [(''country'', c0), (''date'', c1), (''new_cases'', c2),
                      (''people_vaccinated'', c3), (''population'', c4),
                      (''incidencia_diaria'',
                        map (\<lambda>v. of_f64 (fmul v 100000)) (map2 fdiv (map f64_of c2) (map f64_of c4))),
                      (''incidencia_7d'',
                        map of_f64 (groupby_transform c0 None (rolling 7 1 mean)
                          (map (\<lambda>v. fmul v 100000) (map2 fdiv (map f64_of c2) (map f64_of c4)))))]\<rparr>,
          \<lparr>nrows = nrows df,
           cols = [(''fecha'', c1), (pais, c0),
                   (''incidencia_7d'',
                     map of_f64 (groupby_transform c0 None (rolling 7 1 mean)
                       (map (\<lambda>v. fmul v 100000) (map2 fdiv (map f64_of c2) (map f64_of c4)))))]\<rparr>)"
  by (simp add: metrica_incidencia_7d_def get_col_def set_col_def c to_datetime_id [OF d]
      series_div_def series_mul_def to_f64_numeric [OF n] to_f64_numeric [OF p]
      select_cols_def rename_def Let_def comp_def)


lemma set_select: "set (select m xs) \<subseteq> set xs"
  by (auto simp add: select_def dest: set_zip_rightD)

lemma numeric_shift: "list_all numeric xs \<Longrightarrow> list_all numeric (shift n xs)"
  by (auto simp add: shift_def list_all_iff dest: in_set_takeD)

lemma numeric_transform:
  assumes f: "\<And>xs. list_all numeric xs \<Longrightarrow> list_all numeric (f xs)"
    and lf: "\<And>xs. length (f xs) = length xs"
    and v: "list_all numeric vals" and l: "length vals = length keys"
  shows "list_all numeric (groupby_transform keys Null f vals)"
proof -
  have "numeric (groupby_transform keys Null f vals ! i)" if i: "i < length keys" for i
  proof (cases "keys ! i = Null")
    case True
    then show ?thesis using i by (simp add: groupby_transform_def)
  next
    case False
    have "list_all numeric (group_of keys (keys ! i) vals)"
      using v set_select [of "map (\<lambda>k'. k' = keys ! i) keys" vals]
      by (auto simp add: group_of_def list_all_iff)
    then have "list_all numeric (f (group_of keys (keys ! i) vals))" by (rule f)
    moreover have "rank keys i < length (f (group_of keys (keys ! i) vals))"
      using rank_less [OF i l] by (simp add: lf)
    ultimately have "numeric (f (group_of keys (keys ! i) vals) ! rank keys i)"
      by (simp add: list_all_length)
    then show ?thesis using i False by (simp add: transform_nth)
  qed
  then show ?thesis by (simp add: list_all_length)
qed

lemma factor_crec_steps:
  assumes c: "cols df = [(''country'', c0), (''date'', c1), (''new_cases'', c2),
                         (''people_vaccinated'', c3), (''population'', c4)]"
    and d: "to_datetime parse c1 = Inr c1" and n: "to_f64 c2 = Inr nf"
    and a: "map of_f64 (groupby_transform c0 None (rolling 7 7 total) nf) = actual"
    and p: "groupby_transform c0 Null (shift 7) actual = prev"
    and f: "series_div actual prev = Inr factor"
  shows "metrica_factor_crec_7d parse df =
     Inr (df\<lparr>cols := [(''country'', c0), (''date'', c1), (''new_cases'', c2),
                      (''people_vaccinated'', c3), (''population'', c4),
                      (''casos_semana_actual'', actual), (''casos_semana_prev'', prev),
                      (''factor_crec_7d'', factor)]\<rparr>,
          \<lparr>nrows = nrows df,
           cols = [(''semana_fin'', c1), (pais, c0), (''casos_semana'', actual),
                   (''factor_crec_7d'', factor)]\<rparr>)"
  by (simp add: metrica_factor_crec_7d_def get_col_def set_col_def c d n a p f
      select_cols_def rename_def Let_def)

lemma series_div_numeric:
  "list_all numeric a \<Longrightarrow> list_all numeric b
   \<Longrightarrow> series_div a b = Inr (map of_f64 (map2 fdiv (map f64_of a) (map f64_of b)))"
  by (simp add: series_div_def to_f64_numeric)

lemma number_cell_numeric: "number_cell c \<Longrightarrow> numeric c"
  by (cases c rule: number_cell.cases) simp_all

lemma cleaned_table_cols:
  assumes "cleaned_table df"
  obtains c0 c1 c2 c3 c4 where
    "cols df = [(''country'', c0), (''date'', c1), (''new_cases'', c2),
                (''people_vaccinated'', c3), (''population'', c4)]"
    "length c0 = nrows df" "length c1 = nrows df" "length c2 = nrows df"
    "length c3 = nrows df" "length c4 = nrows df"
    "list_all (\<lambda>c. c \<in> set paises) c0" "list_all datetime_cell c1"
    "list_all number_cell c2" "list_all numeric c4"
proof -
  from assms have h: "map fst (cols df) = columnas" by (simp add: cleaned_table_def)
  then obtain c0 c1 c2 c3 c4 where
    c: "cols df = [(''country'', c0), (''date'', c1), (''new_cases'', c2),
                   (''people_vaccinated'', c3), (''population'', c4)]"
    by (auto simp add: columnas_def map_eq_Cons_conv)
  show ?thesis
    using assms that [OF c] by (simp add: cleaned_table_def wf_frame_def col_def c)
qed


section \<open>Incidence\<close>

lemma paises_not_Null: "c \<in> set paises \<Longrightarrow> c \<noteq> Null"
  by (auto simp add: paises_def)

lemma ecuador2_incidencia:
  "result_col (metrica_incidencia_7d parse ecuador2) ''incidencia_7d''
     = Inr [Num (Fin 10), Num (Fin 15)]"
  by code_simp

text \<open>
  Claim C4. In a cleaned table, take any row \<open>i\<close> whose \<open>new_cases\<close> is the number
  \<open>a\<close> and whose \<open>population\<close> is the positive number \<open>p\<close>. The incidence op
  succeeds; it sets \<open>incidencia_diaria\<close> of the row to \<open>a / p * 100000\<close>, and
  \<open>incidencia_7d\<close> of the row to the arithmetic mean of \<open>vs\<close>, the defined daily
  values in the trailing window of at most 7 rows of the row's own entity that ends at
  the row. The row's own daily value is among them, so the mean is defined whatever
  the position of the row (minimum window 1). For the two Ecuador rows of the
  scenario the derived values are 10 and 15.
\<close>

theorem incidencia_7d_completa:
  assumes ct: "cleaned_table df" and i: "i < nrows df"
    and nc: "col df ''new_cases'' ! i = Num (Fin a)"
    and pop: "col df ''population'' ! i = Num (Fin p)" and pos: "0 < p"
  shows "(\<exists>diaria inc7 vs.
      arg_col (metrica_incidencia_7d parse df) ''incidencia_diaria'' = Inr diaria
      \<and> diaria ! i = Num (Fin (a / p * 100000))
      \<and> result_col (metrica_incidencia_7d parse df) ''incidencia_7d'' = Inr inc7
      \<and> vs = finite_vals (window 7 (rank (col df ''country'') i)
                 (group_of (col df ''country'') (col df ''country'' ! i) (map f64_of diaria)))
      \<and> a / p * 100000 \<in> set vs \<and> length vs \<le> 7
      \<and> inc7 ! i = Num (Fin (sum_list vs / of_nat (length vs))))
    \<and> result_col (metrica_incidencia_7d parse ecuador2) ''incidencia_7d''
        = Inr [Num (Fin 10), Num (Fin 15)]"
proof
  from ct obtain c0 c1 c2 c3 c4 where
    c: "cols df = [(''country'', c0), (''date'', c1), (''new_cases'', c2),
                   (''people_vaccinated'', c3), (''population'', c4)]"
    and l0: "length c0 = nrows df" and l2: "length c2 = nrows df" and l4: "length c4 = nrows df"
    and p0: "list_all (\<lambda>c. c \<in> set paises) c0" and d1: "list_all datetime_cell c1"
    and n2: "list_all number_cell c2" and n4: "list_all numeric c4"
    by (rule cleaned_table_cols)
  define D where "D = map (\<lambda>v. fmul v 100000) (map2 fdiv (map f64_of c2) (map f64_of c4))"
  define diaria where "diaria = map of_f64 D"
  define inc7 where "inc7 = map of_f64 (groupby_transform c0 None (rolling 7 1 mean) D)"
  define G where "G = group_of c0 (c0 ! i) D"
  define r where "r = rank c0 i"
  define vs where "vs = finite_vals (window 7 r G)"
  have num2: "list_all numeric c2"
    using n2 by (simp add: list_all_iff number_cell_numeric)
  have cc: "col df ''country'' = c0" "col df ''new_cases'' = c2" "col df ''population'' = c4"
    by (simp_all add: col_def c)
  have lD: "length D = length c0" by (simp add: D_def l0 l2 l4)
  have run: "metrica_incidencia_7d parse df =
     Inr (df\<lparr>cols := [(''country'', c0), (''date'', c1), (''new_cases'', c2),
                      (''people_vaccinated'', c3), (''population'', c4),
                      (''incidencia_diaria'', diaria), (''incidencia_7d'', inc7)]\<rparr>,
          \<lparr>nrows = nrows df, cols = [(''fecha'', c1), (pais, c0), (''incidencia_7d'', inc7)]\<rparr>)"
    unfolding diaria_def inc7_def D_def
    using incidencia_closed [OF c d1 num2 n4, of parse] by (simp add: comp_def)
  have a1: "arg_col (metrica_incidencia_7d parse df) ''incidencia_diaria'' = Inr diaria"
    by (simp add: run arg_col_def get_col_def)
  have a3: "result_col (metrica_incidencia_7d parse df) ''incidencia_7d'' = Inr inc7"
    by (simp add: run result_col_def get_col_def pais_def)
  have Di: "D ! i = Some (Fin (a / p * 100000))"
    using i nc pop pos by (simp add: D_def cc l2 l4)
  have a2: "diaria ! i = Num (Fin (a / p * 100000))"
    using i Di lD l0 by (simp add: diaria_def)
  have fD: "map f64_of diaria = D" by (simp add: diaria_def comp_def)
  have ki: "c0 ! i \<noteq> Null"
    using p0 i l0 by (simp add: list_all_length paises_not_Null)
  have rl: "r < length G"
    unfolding r_def G_def using i l0 lD by (simp add: rank_less)
  have Gr: "G ! r = Some (Fin (a / p * 100000))"
    unfolding r_def G_def using i l0 lD Di by (simp add: group_of_rank_nth)
  have "G ! r \<in> set (window 7 r G)" using rl by (simp add: nth_in_window)
  then have mem: "a / p * 100000 \<in> set vs"
    unfolding vs_def using Gr by (simp add: finite_vals_mem)
  have "length vs \<le> length (window 7 r G)"
    unfolding vs_def by (rule length_finite_vals)
  then have le7: "length vs \<le> 7" using rl by (simp add: length_window)
  have ne: "vs \<noteq> []" using mem by auto
  have "groupby_transform c0 None (rolling 7 1 mean) D ! i = rolling 7 1 mean G ! r"
    unfolding G_def r_def using i l0 ki by (simp add: transform_nth)
  also have "\<dots> = mean vs"
    using rl ne by (simp add: rolling_nth vs_def Suc_le_eq)
  finally have a4: "inc7 ! i = Num (Fin (sum_list vs / of_nat (length vs)))"
    using ne i l0 by (simp add: inc7_def mean_def)
  have a5: "vs = finite_vals (window 7 (rank (col df ''country'') i)
                 (group_of (col df ''country'') (col df ''country'' ! i) (map f64_of diaria)))"
    by (simp add: vs_def r_def G_def cc fD)
  show "\<exists>diaria inc7 vs.
      arg_col (metrica_incidencia_7d parse df) ''incidencia_diaria'' = Inr diaria
      \<and> diaria ! i = Num (Fin (a / p * 100000))
      \<and> result_col (metrica_incidencia_7d parse df) ''incidencia_7d'' = Inr inc7
      \<and> vs = finite_vals (window 7 (rank (col df ''country'') i)
                 (group_of (col df ''country'') (col df ''country'' ! i) (map f64_of diaria)))
      \<and> a / p * 100000 \<in> set vs \<and> length vs \<le> 7
      \<and> inc7 ! i = Num (Fin (sum_list vs / of_nat (length vs)))"
    using a1 a2 a3 a4 a5 mem le7 by blast
next
  show "result_col (metrica_incidencia_7d parse ecuador2) ''incidencia_7d''
        = Inr [Num (Fin 10), Num (Fin 15)]"
    by (rule ecuador2_incidencia)
qed


theorem incidencia_7d_completa_witness:
  "cleaned_table ecuador2 \<and> (1::nat) < nrows ecuador2
   \<and> col ecuador2 ''new_cases'' ! 1 = Num (Fin 200)
   \<and> col ecuador2 ''population'' ! 1 = Num (Fin 1000000) \<and> (0::rat) < 1000000
   \<and> (\<exists>diaria inc7 vs.
      arg_col (metrica_incidencia_7d (\<lambda>c. None) ecuador2) ''incidencia_diaria'' = Inr diaria
      \<and> diaria ! 1 = Num (Fin (200 / 1000000 * 100000))
      \<and> result_col (metrica_incidencia_7d (\<lambda>c. None) ecuador2) ''incidencia_7d'' = Inr inc7
      \<and> vs = finite_vals (window 7 (rank (col ecuador2 ''country'') 1)
                 (group_of (col ecuador2 ''country'') (col ecuador2 ''country'' ! 1)
                    (map f64_of diaria)))
      \<and> 200 / 1000000 * 100000 \<in> set vs \<and> length vs \<le> 7
      \<and> inc7 ! 1 = Num (Fin (sum_list vs / of_nat (length vs))))
   \<and> result_col (metrica_incidencia_7d (\<lambda>c. None) ecuador2) ''incidencia_7d''
        = Inr [Num (Fin 10), Num (Fin 15)]"
proof -
  have h1: "cleaned_table ecuador2" by code_simp
  have h2: "(1::nat) < nrows ecuador2" by code_simp
  have h3: "col ecuador2 ''new_cases'' ! 1 = Num (Fin 200)" by code_simp
  have h4: "col ecuador2 ''population'' ! 1 = Num (Fin 1000000)" by code_simp
  have h5: "(0::rat) < 1000000" by simp
  note t = incidencia_7d_completa [OF h1 h2 h3 h4 h5, of "\<lambda>c. None"]
  show ?thesis
    using h1 h2 h3 h4 h5 t [THEN conjunct1] t [THEN conjunct2]
    by (intro conjI) assumption+
qed

section \<open>Growth factor\<close>

lemma finite_window:
  assumes "list_all (\<lambda>x. \<exists>q. x = Some (Fin q)) G" "j < length G"
  shows "length (finite_vals (window 7 j G)) = min 7 (Suc j)"
proof -
  have "list_all (\<lambda>x. \<exists>q. x = Some (Fin q)) (window 7 j G)"
    using assms(1) set_window [of 7 j G] by (auto simp add: list_all_iff)
  then show ?thesis using assms(2) by (simp add: finite_vals_all length_window)
qed

lemma rolling_total_nth:
  assumes "list_all (\<lambda>x. \<exists>q. x = Some (Fin q)) G" "j < length G"
  shows "rolling 7 7 total G ! j = (if 6 \<le> j then Some (Fin (suma_7 G j)) else None)"
  using assms by (auto simp add: rolling_nth finite_window total_def suma_7_def)

lemma group_of_map: "group_of keys k (map f xs) = map f (group_of keys k xs)"
  by (simp add: group_of_def select_map)


lemma number_cell_f64: "number_cell c \<Longrightarrow> \<exists>q. f64_of c = Some (Fin q)"
  by (cases c rule: number_cell.cases) simp_all

text \<open>
  Claim C5, as amended. In a cleaned table, let row \<open>i\<close> be the row of rank \<open>r\<close> (counted
  from 0) among the rows of its entity in table order, and \<open>g\<close> the entity's
  \<open>new_cases\<close> in that order. The growth op succeeds. \<open>casos_semana\<close> is undefined on
  the entity's first 6 rows and from the 7th row on it is the sum of the 7 values of
  \<open>new_cases\<close> in the trailing window. \<open>casos_semana_prev\<close> is that sum lagged by 7 rows
  of the entity, so \<open>factor_crec_7d\<close> is undefined on the entity's first 13 rows (an
  operand is undefined there), and from the 14th row on it is the quotient of the two
  sums: a number when the denominator is not zero, and an infinity or undefined, not an
  error, when it is zero.
\<close>

theorem factor_crec_7d_parcial:
  assumes ct: "cleaned_table df" and i: "i < nrows df"
  shows "\<exists>cs fc g r.
      result_col (metrica_factor_crec_7d parse df) ''casos_semana'' = Inr cs
      \<and> result_col (metrica_factor_crec_7d parse df) ''factor_crec_7d'' = Inr fc
      \<and> r = rank (col df ''country'') i
      \<and> g = group_of (col df ''country'') (col df ''country'' ! i)
                (map f64_of (col df ''new_cases''))
      \<and> (r < 6 \<longrightarrow> cs ! i = Null)
      \<and> (6 \<le> r \<longrightarrow> cs ! i = Num (Fin (suma_7 g r))
                    \<and> length (finite_vals (window 7 r g)) = 7)
      \<and> (r < 13 \<longrightarrow> fc ! i = Null)
      \<and> (13 \<le> r \<and> suma_7 g (r - 7) \<noteq> 0 \<longrightarrow>
            fc ! i = Num (Fin (suma_7 g r / suma_7 g (r - 7))))
      \<and> (13 \<le> r \<and> suma_7 g (r - 7) = 0 \<longrightarrow>
            fc ! i = (if suma_7 g r = 0 then Null
                      else if 0 < suma_7 g r then Num PInf else Num NInf))"
proof -
  from ct obtain c0 c1 c2 c3 c4 where
    c: "cols df = [(''country'', c0), (''date'', c1), (''new_cases'', c2),
                   (''people_vaccinated'', c3), (''population'', c4)]"
    and l0: "length c0 = nrows df" and l2: "length c2 = nrows df"
    and p0: "list_all (\<lambda>c. c \<in> set paises) c0" and d1: "list_all datetime_cell c1"
    and n2: "list_all number_cell c2"
    by (rule cleaned_table_cols)
  define nf where "nf = map f64_of c2"
  define A where "A = groupby_transform c0 None (rolling 7 7 total) nf"
  define actual where "actual = map of_f64 A"
  define prev where "prev = groupby_transform c0 Null (shift 7) actual"
  define factor where "factor = map of_f64 (map2 fdiv (map f64_of actual) (map f64_of prev))"
  define k where "k = c0 ! i"
  define g where "g = group_of c0 k nf"
  define r where "r = rank c0 i"
  have cc: "col df ''country'' = c0" "col df ''new_cases'' = c2"
    by (simp_all add: col_def c)
  have num2: "list_all numeric c2"
    using n2 by (simp add: list_all_iff number_cell_numeric)
  have lnf: "length nf = length c0" by (simp add: nf_def l0 l2)
  have lA: "length A = length c0" by (simp add: A_def)
  have numprev: "list_all numeric prev"
    unfolding prev_def
  proof (rule numeric_transform)
    show "list_all numeric (shift 7 xs)" if "list_all numeric xs" for xs
      using that by (rule numeric_shift)
    show "length (shift 7 xs) = length xs" for xs by simp
    show "list_all numeric actual" by (simp add: actual_def list_all_iff)
    show "length actual = length c0" by (simp add: actual_def lA)
  qed
  have numact: "list_all numeric actual" by (simp add: actual_def list_all_iff)
  have run: "metrica_factor_crec_7d parse df =
     Inr (df\<lparr>cols := [(''country'', c0), (''date'', c1), (''new_cases'', c2),
                      (''people_vaccinated'', c3), (''population'', c4),
                      (''casos_semana_actual'', actual), (''casos_semana_prev'', prev),
                      (''factor_crec_7d'', factor)]\<rparr>,
          \<lparr>nrows = nrows df,
           cols = [(''semana_fin'', c1), (pais, c0), (''casos_semana'', actual),
                   (''factor_crec_7d'', factor)]\<rparr>)"
  proof (rule factor_crec_steps [OF c])
    show "to_datetime parse c1 = Inr c1" using d1 by (rule to_datetime_id)
    show "to_f64 c2 = Inr nf" using num2 by (simp add: to_f64_numeric nf_def)
    show "map of_f64 (groupby_transform c0 None (rolling 7 7 total) nf) = actual"
      by (simp add: actual_def A_def)
    show "groupby_transform c0 Null (shift 7) actual = prev" by (simp add: prev_def)
    show "series_div actual prev = Inr factor"
      using numact numprev by (simp add: series_div_numeric factor_def)
  qed
  have r1: "result_col (metrica_factor_crec_7d parse df) ''casos_semana'' = Inr actual"
    by (simp add: run result_col_def get_col_def pais_def)
  have r2: "result_col (metrica_factor_crec_7d parse df) ''factor_crec_7d'' = Inr factor"
    by (simp add: run result_col_def get_col_def pais_def)
  have i0: "i < length c0" using i l0 by simp
  have ki: "c0 ! i \<noteq> Null"
    using p0 i0 by (simp add: list_all_length paises_not_Null)
  have fin: "list_all (\<lambda>x. \<exists>q. x = Some (Fin q)) g"
  proof -
    have "list_all (\<lambda>x. \<exists>q. x = Some (Fin q)) nf"
      using n2 by (simp add: nf_def list_all_iff number_cell_f64)
    then show ?thesis
      using set_select [of "map (\<lambda>k'. k' = k) c0" nf]
      by (auto simp add: g_def group_of_def list_all_iff)
  qed
  have rl: "r < length g"
    unfolding r_def g_def k_def using i0 lnf by (simp add: rank_less)
  have Ai: "A ! i = (if 6 \<le> r then Some (Fin (suma_7 g r)) else None)"
    unfolding A_def using i0 ki rl fin
    by (simp add: transform_nth rolling_total_nth g_def r_def k_def)
  have gA: "group_of c0 k actual = map of_f64 (rolling 7 7 total g)"
    unfolding actual_def A_def g_def using ki lnf
    by (simp add: group_of_map group_of_transform k_def)
  have Pi: "prev ! i = (if 13 \<le> r then Num (Fin (suma_7 g (r - 7))) else Null)"
  proof -
    have "prev ! i = shift 7 (group_of c0 k actual) ! r"
      unfolding prev_def using i0 ki by (simp add: transform_nth k_def r_def)
    also have "\<dots> = (if r < 7 then Null else map of_f64 (rolling 7 7 total g) ! (r - 7))"
      using rl by (simp add: gA shift_nth)
    also have "\<dots> = (if 13 \<le> r then Num (Fin (suma_7 g (r - 7))) else Null)"
      using rl fin by (auto simp add: rolling_total_nth)
    finally show ?thesis .
  qed
  have Fi: "factor ! i = of_f64 (fdiv (A ! i) (f64_of (prev ! i)))"
    using i0 lA numprev
    by (simp add: factor_def actual_def prev_def comp_def)
  have w7: "6 \<le> r \<Longrightarrow> length (finite_vals (window 7 r g)) = 7"
    using fin rl by (simp add: finite_window)
  have e1: "r < 6 \<longrightarrow> actual ! i = Null"
    using Ai i0 lA by (simp add: actual_def)
  have e2: "6 \<le> r \<longrightarrow> actual ! i = Num (Fin (suma_7 g r))
                    \<and> length (finite_vals (window 7 r g)) = 7"
    using Ai i0 lA w7 by (simp add: actual_def)
  have e3: "r < 13 \<longrightarrow> factor ! i = Null"
    using Fi Pi by (cases "A ! i") simp_all
  have e4: "13 \<le> r \<and> suma_7 g (r - 7) \<noteq> 0 \<longrightarrow>
            factor ! i = Num (Fin (suma_7 g r / suma_7 g (r - 7)))"
    using Fi Pi Ai by simp
  have e5: "13 \<le> r \<and> suma_7 g (r - 7) = 0 \<longrightarrow>
            factor ! i = (if suma_7 g r = 0 then Null
                      else if 0 < suma_7 g r then Num PInf else Num NInf)"
    using Fi Pi Ai by simp
  have e6: "r = rank (col df ''country'') i" by (simp add: r_def cc)
  have e7: "g = group_of (col df ''country'') (col df ''country'' ! i)
                (map f64_of (col df ''new_cases''))"
    by (simp add: g_def k_def nf_def cc)
  show ?thesis
    using r1 r2 e1 e2 e3 e4 e5 e6 e7 by blast
qed


theorem factor_crec_7d_parcial_witness:
  "cleaned_table quincena \<and> (13::nat) < nrows quincena
   \<and> (\<exists>cs fc g r.
      result_col (metrica_factor_crec_7d no_parse quincena) ''casos_semana'' = Inr cs
      \<and> result_col (metrica_factor_crec_7d no_parse quincena) ''factor_crec_7d'' = Inr fc
      \<and> r = rank (col quincena ''country'') 13
      \<and> g = group_of (col quincena ''country'') (col quincena ''country'' ! 13)
                (map f64_of (col quincena ''new_cases''))
      \<and> (r < 6 \<longrightarrow> cs ! 13 = Null)
      \<and> (6 \<le> r \<longrightarrow> cs ! 13 = Num (Fin (suma_7 g r))
                    \<and> length (finite_vals (window 7 r g)) = 7)
      \<and> (r < 13 \<longrightarrow> fc ! 13 = Null)
      \<and> (13 \<le> r \<and> suma_7 g (r - 7) \<noteq> 0 \<longrightarrow>
            fc ! 13 = Num (Fin (suma_7 g r / suma_7 g (r - 7))))
      \<and> (13 \<le> r \<and> suma_7 g (r - 7) = 0 \<longrightarrow>
            fc ! 13 = (if suma_7 g r = 0 then Null
                      else if 0 < suma_7 g r then Num PInf else Num NInf)))
   \<and> rank (col quincena ''country'') 13 = 13
   \<and> result_col (metrica_factor_crec_7d no_parse quincena) ''casos_semana''
       = Inr [Null, Null, Null, Null, Null, Null, Num (Fin 7), Num (Fin 8), Num (Fin 9),
              Num (Fin 10), Num (Fin 11), Num (Fin 12), Num (Fin 13), Num (Fin 14)]
   \<and> result_col (metrica_factor_crec_7d no_parse quincena) ''factor_crec_7d''
       = Inr [Null, Null, Null, Null, Null, Null, Null, Null, Null, Null, Null, Null, Null,
              Num (Fin 2)]
   \<and> cleaned_table quincena0
   \<and> result_col (metrica_factor_crec_7d no_parse quincena0) ''factor_crec_7d''
       = Inr [Null, Null, Null, Null, Null, Null, Null, Null, Null, Null, Null, Null, Null,
              Num PInf]"
proof -
  have h1: "cleaned_table quincena" by code_simp
  have h2: "(13::nat) < nrows quincena" by code_simp
  have v1: "rank (col quincena ''country'') 13 = 13" by code_simp
  have v2: "result_col (metrica_factor_crec_7d no_parse quincena) ''casos_semana''
       = Inr [Null, Null, Null, Null, Null, Null, Num (Fin 7), Num (Fin 8), Num (Fin 9),
              Num (Fin 10), Num (Fin 11), Num (Fin 12), Num (Fin 13), Num (Fin 14)]"
    by code_simp
  have v3: "result_col (metrica_factor_crec_7d no_parse quincena) ''factor_crec_7d''
       = Inr [Null, Null, Null, Null, Null, Null, Null, Null, Null, Null, Null, Null, Null,
              Num (Fin 2)]"
    by code_simp
  have h3: "cleaned_table quincena0" by code_simp
  have v4: "result_col (metrica_factor_crec_7d no_parse quincena0) ''factor_crec_7d''
       = Inr [Null, Null, Null, Null, Null, Null, Null, Null, Null, Null, Null, Null, Null,
              Num PInf]"
    by code_simp
  show ?thesis
    using h1 h2 h3 v1 v2 v3 v4 factor_crec_7d_parcial [OF h1 h2, of no_parse]
    by (intro conjI) assumption+
qed

text \<open>
  The claim as stated fails on the 7th row: for seven days of one case a day,
  \<open>casos_semana\<close> of the 7th row is 7, its lagged value is undefined, no denominator is
  zero, and \<open>factor_crec_7d\<close> is undefined.
\<close>

theorem factor_crec_7d_septimo_dia:
  "cleaned_table semana7
   \<and> rank (col semana7 ''country'') 6 = 6
   \<and> result_col (metrica_factor_crec_7d no_parse semana7) ''casos_semana''
       = Inr [Null, Null, Null, Null, Null, Null, Num (Fin 7)]
   \<and> arg_col (metrica_factor_crec_7d no_parse semana7) ''casos_semana_prev''
       = Inr [Null, Null, Null, Null, Null, Null, Null]
   \<and> result_col (metrica_factor_crec_7d no_parse semana7) ''factor_crec_7d''
       = Inr [Null, Null, Null, Null, Null, Null, Null]"
  by code_simp

section \<open>The rows of one entity\<close>

lemma select_zip: "select m (zip xs ys) = zip (select m xs) (select m ys)"
proof (induction m arbitrary: xs ys)
  case Nil
  then show ?case by simp
next
  case (Cons b m)
  show ?case
  proof (cases xs)
    case Nil
    then show ?thesis by simp
  next
    case xs: (Cons x xs')
    show ?thesis
    proof (cases ys)
      case Nil
      then show ?thesis by simp
    next
      case (Cons y ys')
      then show ?thesis using xs Cons.IH by simp
    qed
  qed
qed

lemma group_of_zip: "group_of keys k (zip xs ys) = zip (group_of keys k xs) (group_of keys k ys)"
  by (simp add: group_of_def select_zip)

lemma cleaned_rows:
  assumes c: "cols df = [(''country'', c0), (''date'', c1), (''new_cases'', c2),
                         (''people_vaccinated'', c3), (''population'', c4)]"
    and l: "length c0 = nrows df" "length c1 = nrows df" "length c2 = nrows df"
           "length c3 = nrows df" "length c4 = nrows df"
  shows "map (\<lambda>r. r ! 0) (rows df) = c0" "map (\<lambda>r. r ! 1) (rows df) = c1"
    "map (\<lambda>r. r ! 2) (rows df) = c2" "map (\<lambda>r. r ! 4) (rows df) = c4"
proof -
  show "map (\<lambda>r. r ! 0) (rows df) = c0"
    using l(1) map_nth [of c0] by (simp add: rows_def row_def c comp_def)
  show "map (\<lambda>r. r ! 1) (rows df) = c1"
    using l(2) map_nth [of c1] by (simp add: rows_def row_def c comp_def)
  show "map (\<lambda>r. r ! 2) (rows df) = c2"
    using l(3) map_nth [of c2] by (simp add: rows_def row_def c comp_def)
  show "map (\<lambda>r. r ! 4) (rows df) = c4"
    using l(5) map_nth [of c4] by (simp add: rows_def row_def c comp_def)
qed

lemma entity_cols:
  assumes ct: "cleaned_table df"
  shows "group_of (col df ''country'') a (col df ''date'') = map (\<lambda>r. r ! 1) (entity_rows df a)"
    "group_of (col df ''country'') a (col df ''new_cases'') = map (\<lambda>r. r ! 2) (entity_rows df a)"
    "group_of (col df ''country'') a (col df ''population'') = map (\<lambda>r. r ! 4) (entity_rows df a)"
proof -
  from ct obtain c0 c1 c2 c3 c4 where
    c: "cols df = [(''country'', c0), (''date'', c1), (''new_cases'', c2),
                   (''people_vaccinated'', c3), (''population'', c4)]"
    and l: "length c0 = nrows df" "length c1 = nrows df" "length c2 = nrows df"
           "length c3 = nrows df" "length c4 = nrows df"
    by (rule cleaned_table_cols)
  note r = cleaned_rows [OF c l]
  have cc: "col df ''country'' = c0" "col df ''date'' = c1" "col df ''new_cases'' = c2"
    "col df ''population'' = c4"
    by (simp_all add: col_def c)
  show "group_of (col df ''country'') a (col df ''date'') = map (\<lambda>r. r ! 1) (entity_rows df a)"
    unfolding entity_rows_def cc group_of_map [symmetric] r ..
  show "group_of (col df ''country'') a (col df ''new_cases'') = map (\<lambda>r. r ! 2) (entity_rows df a)"
    unfolding entity_rows_def cc group_of_map [symmetric] r ..
  show "group_of (col df ''country'') a (col df ''population'') = map (\<lambda>r. r ! 4) (entity_rows df a)"
    unfolding entity_rows_def cc group_of_map [symmetric] r ..
qed

lemma cleaned_cols_col:
  assumes ct: "cleaned_table df"
  shows "cols df = [(''country'', col df ''country''), (''date'', col df ''date''),
                    (''new_cases'', col df ''new_cases''),
                    (''people_vaccinated'', col df ''people_vaccinated''),
                    (''population'', col df ''population'')]"
    and "length (col df ''country'') = nrows df" and "length (col df ''date'') = nrows df"
    and "length (col df ''new_cases'') = nrows df" and "length (col df ''population'') = nrows df"
    and "list_all (\<lambda>c. c \<in> set paises) (col df ''country'')"
    and "list_all datetime_cell (col df ''date'')"
    and "list_all numeric (col df ''new_cases'')"
    and "list_all numeric (col df ''population'')"
proof -
  from ct obtain c0 c1 c2 c3 c4 where
    c: "cols df = [(''country'', c0), (''date'', c1), (''new_cases'', c2),
                   (''people_vaccinated'', c3), (''population'', c4)]"
    and l: "length c0 = nrows df" "length c1 = nrows df" "length c2 = nrows df"
           "length c4 = nrows df"
    and p: "list_all (\<lambda>c. c \<in> set paises) c0" "list_all datetime_cell c1"
           "list_all number_cell c2" "list_all numeric c4"
    by (rule cleaned_table_cols)
  have cc: "col df ''country'' = c0" "col df ''date'' = c1" "col df ''new_cases'' = c2"
    "col df ''people_vaccinated'' = c3" "col df ''population'' = c4"
    by (simp_all add: col_def c)
  show "cols df = [(''country'', col df ''country''), (''date'', col df ''date''),
                    (''new_cases'', col df ''new_cases''),
                    (''people_vaccinated'', col df ''people_vaccinated''),
                    (''population'', col df ''population'')]"
    by (simp add: cc c)
  show "length (col df ''country'') = nrows df" "length (col df ''date'') = nrows df"
    "length (col df ''new_cases'') = nrows df" "length (col df ''population'') = nrows df"
    "list_all (\<lambda>c. c \<in> set paises) (col df ''country'')"
    "list_all datetime_cell (col df ''date'')"
    "list_all numeric (col df ''population'')"
    using l p by (simp_all add: cc)
  show "list_all numeric (col df ''new_cases'')"
    using p(3) by (simp add: cc list_all_iff number_cell_numeric)
qed

lemma incidencia_cleaned:
  assumes ct: "cleaned_table df"
  shows "\<exists>diaria inc.
      arg_col (metrica_incidencia_7d parse df) ''incidencia_diaria'' = Inr (map of_f64 diaria)
      \<and> result_col (metrica_incidencia_7d parse df) ''incidencia_7d'' = Inr inc
      \<and> diaria = map (\<lambda>v. fmul v 100000)
                    (map2 fdiv (map f64_of (col df ''new_cases'')) (map f64_of (col df ''population'')))
      \<and> inc = map of_f64 (groupby_transform (col df ''country'') None (rolling 7 1 mean) diaria)"
proof -
  note c = cleaned_cols_col [OF ct]
  have run: "metrica_incidencia_7d parse df = Inr
     (df\<lparr>cols := [(''country'', col df ''country''), (''date'', col df ''date''),
            (''new_cases'', col df ''new_cases''),
            (''people_vaccinated'', col df ''people_vaccinated''),
            (''population'', col df ''population''),
            (''incidencia_diaria'',
               map of_f64 (map (\<lambda>v. fmul v 100000)
                 (map2 fdiv (map f64_of (col df ''new_cases'')) (map f64_of (col df ''population''))))),
            (''incidencia_7d'',
               map of_f64 (groupby_transform (col df ''country'') None (rolling 7 1 mean)
                 (map (\<lambda>v. fmul v 100000)
                   (map2 fdiv (map f64_of (col df ''new_cases'')) (map f64_of (col df ''population''))))))]\<rparr>,
      \<lparr>nrows = nrows df,
         cols = [(''fecha'', col df ''date''), (pais, col df ''country''),
                 (''incidencia_7d'',
                    map of_f64 (groupby_transform (col df ''country'') None (rolling 7 1 mean)
                      (map (\<lambda>v. fmul v 100000)
                        (map2 fdiv (map f64_of (col df ''new_cases'')) (map f64_of (col df ''population''))))))]\<rparr>)"
    using incidencia_closed [OF c(1) c(7) c(8) c(9), of parse] by (simp add: comp_def)
  show ?thesis
    by (simp add: run arg_col_def result_col_def get_col_def pais_def)
qed

lemma factor_crec_cleaned:
  assumes ct: "cleaned_table df"
  shows "\<exists>actual prev factor.
      result_col (metrica_factor_crec_7d parse df) ''casos_semana'' = Inr actual
      \<and> arg_col (metrica_factor_crec_7d parse df) ''casos_semana_prev'' = Inr prev
      \<and> result_col (metrica_factor_crec_7d parse df) ''factor_crec_7d'' = Inr factor
      \<and> actual = map of_f64 (groupby_transform (col df ''country'') None (rolling 7 7 total)
                     (map f64_of (col df ''new_cases'')))
      \<and> prev = groupby_transform (col df ''country'') Null (shift 7) actual
      \<and> factor = map of_f64 (map2 fdiv (map f64_of actual) (map f64_of prev))"
proof -
  note c = cleaned_cols_col [OF ct]
  define actual where "actual = map of_f64 (groupby_transform (col df ''country'') None
     (rolling 7 7 total) (map f64_of (col df ''new_cases'')))"
  define prev where "prev = groupby_transform (col df ''country'') Null (shift 7) actual"
  define factor where "factor = map of_f64 (map2 fdiv (map f64_of actual) (map f64_of prev))"
  have numact: "list_all numeric actual" by (simp add: actual_def list_all_iff)
  have numprev: "list_all numeric prev"
    unfolding prev_def
  proof (rule numeric_transform)
    show "list_all numeric (shift 7 xs)" if "list_all numeric xs" for xs
      using that by (rule numeric_shift)
    show "length (shift 7 xs) = length xs" for xs by simp
    show "list_all numeric actual" by (rule numact)
    show "length actual = length (col df ''country'')" by (simp add: actual_def)
  qed
  have run: "metrica_factor_crec_7d parse df =
     Inr (df\<lparr>cols := [(''country'', col df ''country''), (''date'', col df ''date''),
            (''new_cases'', col df ''new_cases''),
            (''people_vaccinated'', col df ''people_vaccinated''),
            (''population'', col df ''population''),
            (''casos_semana_actual'', actual), (''casos_semana_prev'', prev),
            (''factor_crec_7d'', factor)]\<rparr>,
          \<lparr>nrows = nrows df,
           cols = [(''semana_fin'', col df ''date''), (pais, col df ''country''),
                   (''casos_semana'', actual), (''factor_crec_7d'', factor)]\<rparr>)"
  proof (rule factor_crec_steps [OF c(1)])
    show "to_datetime parse (col df ''date'') = Inr (col df ''date'')"
      using c(7) by (rule to_datetime_id)
    show "to_f64 (col df ''new_cases'') = Inr (map f64_of (col df ''new_cases''))"
      using c(8) by (rule to_f64_numeric)
    show "map of_f64 (groupby_transform (col df ''country'') None (rolling 7 7 total)
            (map f64_of (col df ''new_cases''))) = actual"
      by (simp add: actual_def)
    show "groupby_transform (col df ''country'') Null (shift 7) actual = prev"
      by (simp add: prev_def)
    show "series_div actual prev = Inr factor"
      using numact numprev by (simp add: series_div_numeric factor_def)
  qed
  have "result_col (metrica_factor_crec_7d parse df) ''casos_semana'' = Inr actual"
    "arg_col (metrica_factor_crec_7d parse df) ''casos_semana_prev'' = Inr prev"
    "result_col (metrica_factor_crec_7d parse df) ''factor_crec_7d'' = Inr factor"
    by (simp_all add: run arg_col_def result_col_def get_col_def pais_def)
  then show ?thesis
    using actual_def prev_def factor_def by blast
qed

lemma grupos_incidencia:
  assumes ct: "cleaned_table df" and a: "a \<noteq> Null"
  shows "\<exists>diaria inc.
      arg_col (metrica_incidencia_7d parse df) ''incidencia_diaria'' = Inr diaria
      \<and> result_col (metrica_incidencia_7d parse df) ''incidencia_7d'' = Inr inc
      \<and> map f64_of (group_of (col df ''country'') a diaria)
          = map (\<lambda>r. fmul (fdiv (f64_of (r ! 2)) (f64_of (r ! 4))) 100000) (entity_rows df a)
      \<and> group_of (col df ''country'') a inc
          = map of_f64 (rolling 7 1 mean (map f64_of (group_of (col df ''country'') a diaria)))"
proof -
  note c = cleaned_cols_col [OF ct]
  note e = entity_cols [OF ct, of a]
  let ?G = "group_of (col df ''country'') a"
  from incidencia_cleaned [OF ct, of parse] obtain D inc where
    r1: "arg_col (metrica_incidencia_7d parse df) ''incidencia_diaria'' = Inr (map of_f64 D)"
    and r2: "result_col (metrica_incidencia_7d parse df) ''incidencia_7d'' = Inr inc"
    and D: "D = map (\<lambda>v. fmul v 100000)
                  (map2 fdiv (map f64_of (col df ''new_cases'')) (map f64_of (col df ''population'')))"
    and inc: "inc = map of_f64 (groupby_transform (col df ''country'') None (rolling 7 1 mean) D)"
    by blast
  have lD: "length D = length (col df ''country'')" by (simp add: D c)
  have g1: "map f64_of (?G (map of_f64 D)) = ?G D"
    by (simp add: group_of_map comp_def)
  have g2: "?G D = map (\<lambda>r. fmul (fdiv (f64_of (r ! 2)) (f64_of (r ! 4))) 100000) (entity_rows df a)"
    by (simp add: D group_of_map group_of_zip e zip_map1 zip_map2 zip_same_conv_map comp_def)
  have g3: "?G inc = map of_f64 (rolling 7 1 mean (?G D))"
    unfolding inc using a lD by (simp add: group_of_map group_of_transform)
  show ?thesis
    using r1 r2 g1 g2 g3 by auto
qed

lemma grupos_factor:
  assumes ct: "cleaned_table df" and a: "a \<noteq> Null"
  shows "\<exists>cs prev fc.
      result_col (metrica_factor_crec_7d parse df) ''casos_semana'' = Inr cs
      \<and> arg_col (metrica_factor_crec_7d parse df) ''casos_semana_prev'' = Inr prev
      \<and> result_col (metrica_factor_crec_7d parse df) ''factor_crec_7d'' = Inr fc
      \<and> group_of (col df ''country'') a cs
          = map of_f64 (rolling 7 7 total (map (\<lambda>r. f64_of (r ! 2)) (entity_rows df a)))
      \<and> group_of (col df ''country'') a prev = shift 7 (group_of (col df ''country'') a cs)
      \<and> group_of (col df ''country'') a fc
          = map of_f64 (map2 fdiv (map f64_of (group_of (col df ''country'') a cs))
                                 (map f64_of (group_of (col df ''country'') a prev)))"
proof -
  note c = cleaned_cols_col [OF ct]
  note e = entity_cols [OF ct, of a]
  let ?G = "group_of (col df ''country'') a"
  from factor_crec_cleaned [OF ct, of parse] obtain actual prev factor where
    r1: "result_col (metrica_factor_crec_7d parse df) ''casos_semana'' = Inr actual"
    and r2: "arg_col (metrica_factor_crec_7d parse df) ''casos_semana_prev'' = Inr prev"
    and r3: "result_col (metrica_factor_crec_7d parse df) ''factor_crec_7d'' = Inr factor"
    and ac: "actual = map of_f64 (groupby_transform (col df ''country'') None (rolling 7 7 total)
                     (map f64_of (col df ''new_cases'')))"
    and pr: "prev = groupby_transform (col df ''country'') Null (shift 7) actual"
    and fa: "factor = map of_f64 (map2 fdiv (map f64_of actual) (map f64_of prev))"
    by blast
  have g1: "?G actual = map of_f64 (rolling 7 7 total (map (\<lambda>r. f64_of (r ! 2)) (entity_rows df a)))"
    unfolding ac using a c by (simp add: group_of_map group_of_transform e comp_def)
  have la: "length actual = length (col df ''country'')" by (simp add: ac)
  have g2: "?G prev = shift 7 (?G actual)"
    unfolding pr using a la by (simp add: group_of_transform)
  have g3: "?G factor = map of_f64 (map2 fdiv (map f64_of (?G actual)) (map f64_of (?G prev)))"
    unfolding fa by (simp add: group_of_map group_of_zip)
  show ?thesis
    using r1 r2 r3 g1 g2 g3 by blast
qed

section \<open>Isolation of the entities\<close>

text \<open>
  Claim C6. Let \<open>t\<close> and \<open>t'\<close> be cleaned tables in which the rows of the entity \<open>a\<close>
  are the same rows in the same order; that is what permuting or deleting the rows of
  any other entity leaves of a table, wherever those rows stand. Then both ops succeed
  on both tables, and the values of \<open>incidencia_7d\<close>, \<open>casos_semana\<close> and
  \<open>factor_crec_7d\<close> attached to the rows of \<open>a\<close> are the same in both: the rolling and
  lag windows of a row hold rows of its own entity only.
\<close>

theorem aislamiento_por_entidad:
  assumes t: "cleaned_table t" and t': "cleaned_table t'" and a: "a \<noteq> Null"
    and same: "entity_rows t a = entity_rows t' a"
  shows "\<exists>inc inc' cs cs' fc fc'.
      result_col (metrica_incidencia_7d parse t) ''incidencia_7d'' = Inr inc
      \<and> result_col (metrica_incidencia_7d parse t') ''incidencia_7d'' = Inr inc'
      \<and> group_of (col t ''country'') a inc = group_of (col t' ''country'') a inc'
      \<and> result_col (metrica_factor_crec_7d parse t) ''casos_semana'' = Inr cs
      \<and> result_col (metrica_factor_crec_7d parse t') ''casos_semana'' = Inr cs'
      \<and> group_of (col t ''country'') a cs = group_of (col t' ''country'') a cs'
      \<and> result_col (metrica_factor_crec_7d parse t) ''factor_crec_7d'' = Inr fc
      \<and> result_col (metrica_factor_crec_7d parse t') ''factor_crec_7d'' = Inr fc'
      \<and> group_of (col t ''country'') a fc = group_of (col t' ''country'') a fc'"
proof -
  from grupos_incidencia [OF t a, of parse] obtain d inc where
    i1: "result_col (metrica_incidencia_7d parse t) ''incidencia_7d'' = Inr inc"
    and i2: "map f64_of (group_of (col t ''country'') a d)
          = map (\<lambda>r. fmul (fdiv (f64_of (r ! 2)) (f64_of (r ! 4))) 100000) (entity_rows t a)"
    and i3: "group_of (col t ''country'') a inc
          = map of_f64 (rolling 7 1 mean (map f64_of (group_of (col t ''country'') a d)))"
    by blast
  from grupos_incidencia [OF t' a, of parse] obtain d' inc' where
    j1: "result_col (metrica_incidencia_7d parse t') ''incidencia_7d'' = Inr inc'"
    and j2: "map f64_of (group_of (col t' ''country'') a d')
          = map (\<lambda>r. fmul (fdiv (f64_of (r ! 2)) (f64_of (r ! 4))) 100000) (entity_rows t' a)"
    and j3: "group_of (col t' ''country'') a inc'
          = map of_f64 (rolling 7 1 mean (map f64_of (group_of (col t' ''country'') a d')))"
    by blast
  from grupos_factor [OF t a, of parse] obtain cs prev fc where
    f1: "result_col (metrica_factor_crec_7d parse t) ''casos_semana'' = Inr cs"
    and f2: "result_col (metrica_factor_crec_7d parse t) ''factor_crec_7d'' = Inr fc"
    and f3: "group_of (col t ''country'') a cs
          = map of_f64 (rolling 7 7 total (map (\<lambda>r. f64_of (r ! 2)) (entity_rows t a)))"
    and f4: "group_of (col t ''country'') a prev = shift 7 (group_of (col t ''country'') a cs)"
    and f5: "group_of (col t ''country'') a fc
          = map of_f64 (map2 fdiv (map f64_of (group_of (col t ''country'') a cs))
                                 (map f64_of (group_of (col t ''country'') a prev)))"
    by blast
  from grupos_factor [OF t' a, of parse] obtain cs' prev' fc' where
    g1: "result_col (metrica_factor_crec_7d parse t') ''casos_semana'' = Inr cs'"
    and g2: "result_col (metrica_factor_crec_7d parse t') ''factor_crec_7d'' = Inr fc'"
    and g3: "group_of (col t' ''country'') a cs'
          = map of_f64 (rolling 7 7 total (map (\<lambda>r. f64_of (r ! 2)) (entity_rows t' a)))"
    and g4: "group_of (col t' ''country'') a prev' = shift 7 (group_of (col t' ''country'') a cs')"
    and g5: "group_of (col t' ''country'') a fc'
          = map of_f64 (map2 fdiv (map f64_of (group_of (col t' ''country'') a cs'))
                                 (map f64_of (group_of (col t' ''country'') a prev')))"
    by blast
  have e1: "group_of (col t ''country'') a inc = group_of (col t' ''country'') a inc'"
    by (simp add: i3 j3 i2 j2 same)
  have e2: "group_of (col t ''country'') a cs = group_of (col t' ''country'') a cs'"
    by (simp add: f3 g3 same)
  have e3: "group_of (col t ''country'') a fc = group_of (col t' ''country'') a fc'"
    by (simp add: f5 g5 f4 g4 e2)
  show ?thesis
    using i1 j1 e1 f1 g1 e2 f2 g2 e3 by blast
qed



theorem aislamiento_por_entidad_witness:
  "cleaned_table mezcla \<and> cleaned_table mezcla_b \<and> Str ''Ecuador'' \<noteq> Null
   \<and> entity_rows mezcla (Str ''Ecuador'') = entity_rows mezcla_b (Str ''Ecuador'')
   \<and> (\<exists>inc inc' cs cs' fc fc'.
      result_col (metrica_incidencia_7d no_parse mezcla) ''incidencia_7d'' = Inr inc
      \<and> result_col (metrica_incidencia_7d no_parse mezcla_b) ''incidencia_7d'' = Inr inc'
      \<and> group_of (col mezcla ''country'') (Str ''Ecuador'') inc
          = group_of (col mezcla_b ''country'') (Str ''Ecuador'') inc'
      \<and> result_col (metrica_factor_crec_7d no_parse mezcla) ''casos_semana'' = Inr cs
      \<and> result_col (metrica_factor_crec_7d no_parse mezcla_b) ''casos_semana'' = Inr cs'
      \<and> group_of (col mezcla ''country'') (Str ''Ecuador'') cs
          = group_of (col mezcla_b ''country'') (Str ''Ecuador'') cs'
      \<and> result_col (metrica_factor_crec_7d no_parse mezcla) ''factor_crec_7d'' = Inr fc
      \<and> result_col (metrica_factor_crec_7d no_parse mezcla_b) ''factor_crec_7d'' = Inr fc'
      \<and> group_of (col mezcla ''country'') (Str ''Ecuador'') fc
          = group_of (col mezcla_b ''country'') (Str ''Ecuador'') fc')
   \<and> result_col (metrica_incidencia_7d no_parse mezcla) ''incidencia_7d''
       = Inr [Num (Fin 10), Num (Fin 5), Num (Fin 15), Num (Fin 6), Num (Fin 7)]
   \<and> result_col (metrica_incidencia_7d no_parse mezcla_b) ''incidencia_7d''
       = Inr [Num (Fin 10), Num (Fin 9), Num (Fin 15), Num (Fin 7)]"
proof -
  have h1: "cleaned_table mezcla" by code_simp
  have h2: "cleaned_table mezcla_b" by code_simp
  have h3: "Str ''Ecuador'' \<noteq> Null" by simp
  have h4: "entity_rows mezcla (Str ''Ecuador'') = entity_rows mezcla_b (Str ''Ecuador'')"
    by code_simp
  have v1: "result_col (metrica_incidencia_7d no_parse mezcla) ''incidencia_7d''
       = Inr [Num (Fin 10), Num (Fin 5), Num (Fin 15), Num (Fin 6), Num (Fin 7)]"
    by code_simp
  have v2: "result_col (metrica_incidencia_7d no_parse mezcla_b) ''incidencia_7d''
       = Inr [Num (Fin 10), Num (Fin 9), Num (Fin 15), Num (Fin 7)]"
    by code_simp
  show ?thesis
    using h1 h2 h3 h4 v1 v2 aislamiento_por_entidad [OF h1 h2 h3 h4, of no_parse]
    by (intro conjI) assumption+
qed

section \<open>The order of the rows in a window\<close>

lemma por_fecha_sorted:
  assumes "sorted (map date_key dates)" "length vals = length dates"
  shows "por_fecha dates vals = vals"
proof -
  have "map (\<lambda>p. date_key (fst p)) (zip dates vals) = map date_key dates"
    using assms(2) by (simp flip: map_map [unfolded comp_def])
  then have "sort_key (\<lambda>p. date_key (fst p)) (zip dates vals) = zip dates vals"
    using assms(1) by (simp add: sort_key_id_if_sorted)
  then show ?thesis using assms(2) by (simp add: por_fecha_def)
qed



text \<open>
  Claim C2, as amended. Neither op sorts: for every entity \<open>a\<close> of a cleaned table, the
  values of \<open>incidencia_7d\<close> on the rows of \<open>a\<close> are the rolling means of the daily
  incidence of those rows in table order, \<open>casos_semana\<close> is the rolling sum of their
  \<open>new_cases\<close> in table order, and \<open>casos_semana_prev\<close> is \<open>casos_semana\<close> moved 7 of
  those rows on. When the rows of \<open>a\<close> already stand in ascending date order, this is the
  computation over the rows ordered by date that the specification describes.
\<close>

theorem ventanas_en_orden_de_tabla:
  assumes ct: "cleaned_table df" and a: "a \<noteq> Null"
  shows "\<exists>diaria inc cs prev.
      arg_col (metrica_incidencia_7d parse df) ''incidencia_diaria'' = Inr diaria
      \<and> result_col (metrica_incidencia_7d parse df) ''incidencia_7d'' = Inr inc
      \<and> result_col (metrica_factor_crec_7d parse df) ''casos_semana'' = Inr cs
      \<and> arg_col (metrica_factor_crec_7d parse df) ''casos_semana_prev'' = Inr prev
      \<and> group_of (col df ''country'') a inc
          = map of_f64 (rolling 7 1 mean (map f64_of (group_of (col df ''country'') a diaria)))
      \<and> group_of (col df ''country'') a cs
          = map of_f64 (rolling 7 7 total
              (map f64_of (group_of (col df ''country'') a (col df ''new_cases''))))
      \<and> group_of (col df ''country'') a prev = shift 7 (group_of (col df ''country'') a cs)
      \<and> (sorted (map date_key (group_of (col df ''country'') a (col df ''date''))) \<longrightarrow>
           group_of (col df ''country'') a inc
             = map of_f64 (rolling 7 1 mean
                 (por_fecha (group_of (col df ''country'') a (col df ''date''))
                    (map f64_of (group_of (col df ''country'') a diaria))))
           \<and> group_of (col df ''country'') a cs
             = map of_f64 (rolling 7 7 total
                 (por_fecha (group_of (col df ''country'') a (col df ''date''))
                    (map f64_of (group_of (col df ''country'') a (col df ''new_cases'')))))
           \<and> group_of (col df ''country'') a prev
             = shift 7 (por_fecha (group_of (col df ''country'') a (col df ''date''))
                          (group_of (col df ''country'') a cs)))"
proof -
  let ?G = "group_of (col df ''country'') a"
  note e = entity_cols [OF ct, of a]
  from grupos_incidencia [OF ct a, of parse] obtain diaria inc where
    i0: "arg_col (metrica_incidencia_7d parse df) ''incidencia_diaria'' = Inr diaria"
    and i1: "result_col (metrica_incidencia_7d parse df) ''incidencia_7d'' = Inr inc"
    and i2: "map f64_of (?G diaria)
          = map (\<lambda>r. fmul (fdiv (f64_of (r ! 2)) (f64_of (r ! 4))) 100000) (entity_rows df a)"
    and i3: "?G inc = map of_f64 (rolling 7 1 mean (map f64_of (?G diaria)))"
    by blast
  from grupos_factor [OF ct a, of parse] obtain cs prev fc where
    f1: "result_col (metrica_factor_crec_7d parse df) ''casos_semana'' = Inr cs"
    and f2: "arg_col (metrica_factor_crec_7d parse df) ''casos_semana_prev'' = Inr prev"
    and f3: "?G cs = map of_f64 (rolling 7 7 total (map (\<lambda>r. f64_of (r ! 2)) (entity_rows df a)))"
    and f4: "?G prev = shift 7 (?G cs)"
    by blast
  have f3': "?G cs = map of_f64 (rolling 7 7 total (map f64_of (?G (col df ''new_cases''))))"
    by (simp add: f3 e comp_def)
  have l1: "length (map f64_of (?G diaria)) = length (?G (col df ''date''))"
    by (simp add: i2 e)
  have l2: "length (map f64_of (?G (col df ''new_cases''))) = length (?G (col df ''date''))"
    by (simp add: e)
  have l3: "length (?G cs) = length (?G (col df ''date''))"
    by (simp add: f3 e)
  have s: "sorted (map date_key (?G (col df ''date''))) \<longrightarrow>
           ?G inc = map of_f64 (rolling 7 1 mean
                 (por_fecha (?G (col df ''date'')) (map f64_of (?G diaria))))
           \<and> ?G cs = map of_f64 (rolling 7 7 total
                 (por_fecha (?G (col df ''date'')) (map f64_of (?G (col df ''new_cases'')))))
           \<and> ?G prev = shift 7 (por_fecha (?G (col df ''date'')) (?G cs))"
    using i3 f3' f4 por_fecha_sorted [OF _ l1] por_fecha_sorted [OF _ l2]
      por_fecha_sorted [OF _ l3]
    by auto
  show ?thesis
    using i0 i1 f1 f2 i3 f3' f4 s by blast
qed

text \<open>
  The claim as stated fails: the two Ecuador rows in descending date order are a
  permutation of the date-sorted table, and the value attached to (Ecuador, 2024-01-02)
  is 20 there and 15 for the date-sorted table; the one attached to (Ecuador,
  2024-01-01) is 15 there and 10 for the date-sorted table.
\<close>

theorem orden_de_tabla_no_de_fecha:
  "rows ecuador2_desc = rev (rows ecuador2)
   \<and> result_col (metrica_incidencia_7d no_parse ecuador2) ''fecha''
       = Inr [Date 19723, Date 19724]
   \<and> result_col (metrica_incidencia_7d no_parse ecuador2) ''incidencia_7d''
       = Inr [Num (Fin 10), Num (Fin 15)]
   \<and> result_col (metrica_incidencia_7d no_parse ecuador2_desc) ''fecha''
       = Inr [Date 19724, Date 19723]
   \<and> result_col (metrica_incidencia_7d no_parse ecuador2_desc) ''incidencia_7d''
       = Inr [Num (Fin 20), Num (Fin 15)]"
  by code_simp

theorem ventanas_en_orden_de_tabla_witness:
  "cleaned_table ecuador2 \<and> Str ''Ecuador'' \<noteq> Null
   \<and> sorted (map date_key (group_of (col ecuador2 ''country'') (Str ''Ecuador'')
                (col ecuador2 ''date'')))
   \<and> (\<exists>diaria inc cs prev.
      arg_col (metrica_incidencia_7d no_parse ecuador2) ''incidencia_diaria'' = Inr diaria
      \<and> result_col (metrica_incidencia_7d no_parse ecuador2) ''incidencia_7d'' = Inr inc
      \<and> result_col (metrica_factor_crec_7d no_parse ecuador2) ''casos_semana'' = Inr cs
      \<and> arg_col (metrica_factor_crec_7d no_parse ecuador2) ''casos_semana_prev'' = Inr prev
      \<and> group_of (col ecuador2 ''country'') (Str ''Ecuador'') inc
          = map of_f64 (rolling 7 1 mean (map f64_of (group_of (col ecuador2 ''country'') (Str ''Ecuador'') diaria)))
      \<and> group_of (col ecuador2 ''country'') (Str ''Ecuador'') cs
          = map of_f64 (rolling 7 7 total
              (map f64_of (group_of (col ecuador2 ''country'') (Str ''Ecuador'') (col ecuador2 ''new_cases''))))
      \<and> group_of (col ecuador2 ''country'') (Str ''Ecuador'') prev = shift 7 (group_of (col ecuador2 ''country'') (Str ''Ecuador'') cs)
      \<and> (sorted (map date_key (group_of (col ecuador2 ''country'') (Str ''Ecuador'') (col ecuador2 ''date''))) \<longrightarrow>
           group_of (col ecuador2 ''country'') (Str ''Ecuador'') inc
             = map of_f64 (rolling 7 1 mean
                 (por_fecha (group_of (col ecuador2 ''country'') (Str ''Ecuador'') (col ecuador2 ''date''))
                    (map f64_of (group_of (col ecuador2 ''country'') (Str ''Ecuador'') diaria))))
           \<and> group_of (col ecuador2 ''country'') (Str ''Ecuador'') cs
             = map of_f64 (rolling 7 7 total
                 (por_fecha (group_of (col ecuador2 ''country'') (Str ''Ecuador'') (col ecuador2 ''date''))
                    (map f64_of (group_of (col ecuador2 ''country'') (Str ''Ecuador'') (col ecuador2 ''new_cases'')))))
           \<and> group_of (col ecuador2 ''country'') (Str ''Ecuador'') prev
             = shift 7 (por_fecha (group_of (col ecuador2 ''country'') (Str ''Ecuador'') (col ecuador2 ''date''))
                          (group_of (col ecuador2 ''country'') (Str ''Ecuador'') cs))))
   \<and> result_col (metrica_incidencia_7d no_parse ecuador2) ''incidencia_7d''
       = Inr [Num (Fin 10), Num (Fin 15)]"
proof -
  have h1: "cleaned_table ecuador2" by code_simp
  have h2: "Str ''Ecuador'' \<noteq> Null" by simp
  have h3: "sorted (map date_key (group_of (col ecuador2 ''country'') (Str ''Ecuador'')
                (col ecuador2 ''date'')))"
    by code_simp
  have v1: "result_col (metrica_incidencia_7d no_parse ecuador2) ''incidencia_7d''
       = Inr [Num (Fin 10), Num (Fin 15)]"
    by code_simp
  show ?thesis
    using h1 h2 h3 v1 ventanas_en_orden_de_tabla [OF h1 h2, of no_parse]
    by (intro conjI) assumption+
qed

section \<open>The validator\<close>

lemma xle_refl [simp]: "xle a a"
  by (cases a) simp_all

lemma xle_trans: "xle a b \<Longrightarrow> xle b c \<Longrightarrow> xle a c"
  by (cases a; cases b; cases c) simp_all

lemma xle_total: "xle a b \<or> xle b a"
  by (cases a; cases b) auto

lemma skipna_min_None: "definidos v = [] \<Longrightarrow> skipna_min v = None"
  by (induction v rule: skipna_min.induct) simp_all

lemma skipna_max_None: "definidos v = [] \<Longrightarrow> skipna_max v = None"
  by (induction v rule: skipna_max.induct) simp_all

lemma skipna_min_Some:
  "definidos v \<noteq> [] \<Longrightarrow>
   \<exists>lo. skipna_min v = Some lo \<and> lo \<in> set (definidos v) \<and> list_all (xle lo) (definidos v)"
proof (induction v rule: skipna_min.induct)
  case 1
  then show ?case by simp
next
  case (2 xs)
  then show ?case by simp
next
  case (3 x xs)
  show ?case
  proof (cases "definidos xs = []")
    case True
    then show ?thesis by (simp add: skipna_min_None)
  next
    case False
    with 3 obtain lo where lo: "skipna_min xs = Some lo" "lo \<in> set (definidos xs)"
      "list_all (xle lo) (definidos xs)"
      by blast
    show ?thesis
    proof (cases "xle x lo")
      case True
      then have "list_all (xle x) (definidos xs)"
        using lo(3) by (auto simp add: list_all_iff intro: xle_trans)
      then show ?thesis using lo True by simp
    next
      case no: False
      then have "xle lo x" using xle_total [of x lo] by simp
      then show ?thesis using lo no by simp
    qed
  qed
qed

lemma skipna_max_Some:
  "definidos v \<noteq> [] \<Longrightarrow>
   \<exists>hi. skipna_max v = Some hi \<and> hi \<in> set (definidos v) \<and> list_all (\<lambda>x. xle x hi) (definidos v)"
proof (induction v rule: skipna_max.induct)
  case 1
  then show ?case by simp
next
  case (2 xs)
  then show ?case by simp
next
  case (3 x xs)
  show ?case
  proof (cases "definidos xs = []")
    case True
    then show ?thesis by (simp add: skipna_max_None)
  next
    case False
    with 3 obtain hi where hi: "skipna_max xs = Some hi" "hi \<in> set (definidos xs)"
      "list_all (\<lambda>x. xle x hi) (definidos xs)"
      by blast
    show ?thesis
    proof (cases "xle hi x")
      case True
      then have "list_all (\<lambda>y. xle y x) (definidos xs)"
        using hi(3) by (auto simp add: list_all_iff intro: xle_trans)
      then show ?thesis using hi True by simp
    next
      case no: False
      then have "xle x hi" using xle_total [of x hi] by simp
      then show ?thesis using hi no by simp
    qed
  qed
qed


text \<open>
  Claim C8. On every incidence table (a table with a float column \<open>incidencia_7d\<close>)
  the validator raises nothing. It reads the table and returns a printed line only, so
  no row of the table changes. \<open>mn\<close> and \<open>mx\<close> are the least and the greatest defined
  value of the column, both undefined when the column has no defined value (as in an
  empty table). The line is the in-range message exactly when both lie within
  \<open>[0, 2000]\<close>, which is the case exactly when the column has a defined value and all
  its defined values lie there; otherwise it is the out-of-range message; either
  message carries \<open>mn\<close> and \<open>mx\<close>.
\<close>

theorem chequeo_incidencia_rango:
  assumes s: "get_col inc ''incidencia_7d'' = Inr s" and n: "list_all numeric s"
  shows "\<exists>mn mx.
      chequeo_incidencia inc
        = Inr (if en_rango mn \<and> en_rango mx then DentroRango mn mx else FueraRango mn mx)
      \<and> (definidos (map f64_of s) = [] \<longrightarrow> mn = None \<and> mx = None)
      \<and> (definidos (map f64_of s) \<noteq> [] \<longrightarrow>
            (\<exists>lo hi. mn = Some lo \<and> mx = Some hi
               \<and> lo \<in> set (definidos (map f64_of s)) \<and> hi \<in> set (definidos (map f64_of s))
               \<and> list_all (\<lambda>x. xle lo x \<and> xle x hi) (definidos (map f64_of s))))
      \<and> (en_rango mn \<and> en_rango mx \<longleftrightarrow>
            definidos (map f64_of s) \<noteq> []
            \<and> list_all (\<lambda>x. xle (Fin 0) x \<and> xle x (Fin 2000)) (definidos (map f64_of s)))"
proof -
  define v where "v = map f64_of s"
  define mn where "mn = skipna_min v"
  define mx where "mx = skipna_max v"
  have run: "chequeo_incidencia inc
        = Inr (if en_rango mn \<and> en_rango mx then DentroRango mn mx else FueraRango mn mx)"
    using s n by (simp add: chequeo_incidencia_def to_f64_numeric Let_def v_def mn_def mx_def)
  have e: "definidos v = [] \<longrightarrow> mn = None \<and> mx = None"
    by (simp add: mn_def mx_def skipna_min_None skipna_max_None)
  have b: "\<exists>lo hi. mn = Some lo \<and> mx = Some hi \<and> lo \<in> set (definidos v) \<and> hi \<in> set (definidos v)
               \<and> list_all (\<lambda>x. xle lo x \<and> xle x hi) (definidos v)"
    if ne: "definidos v \<noteq> []"
  proof -
    from skipna_min_Some [OF ne] obtain lo where
      lo: "skipna_min v = Some lo" "lo \<in> set (definidos v)" "list_all (xle lo) (definidos v)"
      by blast
    from skipna_max_Some [OF ne] obtain hi where
      hi: "skipna_max v = Some hi" "hi \<in> set (definidos v)"
        "list_all (\<lambda>x. xle x hi) (definidos v)"
      by blast
    have "list_all (\<lambda>x. xle lo x \<and> xle x hi) (definidos v)"
      using lo(3) hi(3) by (simp add: list_all_iff)
    then show ?thesis using lo hi by (simp add: mn_def mx_def)
  qed
  have r: "en_rango mn \<and> en_rango mx \<longleftrightarrow>
            definidos v \<noteq> [] \<and> list_all (\<lambda>x. xle (Fin 0) x \<and> xle x (Fin 2000)) (definidos v)"
  proof (cases "definidos v = []")
    case True
    then show ?thesis using e by simp
  next
    case False
    from b [OF False] obtain lo hi where
      m: "mn = Some lo" "mx = Some hi" "lo \<in> set (definidos v)" "hi \<in> set (definidos v)"
      and a: "list_all (\<lambda>x. xle lo x \<and> xle x hi) (definidos v)"
      by blast
    show ?thesis
    proof
      assume "en_rango mn \<and> en_rango mx"
      then have "xle (Fin 0) lo" "xle hi (Fin 2000)" using m by simp_all
      then have "list_all (\<lambda>x. xle (Fin 0) x \<and> xle x (Fin 2000)) (definidos v)"
        using a by (auto simp add: list_all_iff intro: xle_trans)
      then show "definidos v \<noteq> [] \<and> list_all (\<lambda>x. xle (Fin 0) x \<and> xle x (Fin 2000)) (definidos v)"
        using False by simp
    next
      assume "definidos v \<noteq> [] \<and> list_all (\<lambda>x. xle (Fin 0) x \<and> xle x (Fin 2000)) (definidos v)"
      then show "en_rango mn \<and> en_rango mx"
        using m by (simp add: list_all_iff)
    qed
  qed
  show ?thesis
    using run e b r unfolding v_def by blast
qed



theorem chequeo_incidencia_rango_witness:
  "get_col inc_normal ''incidencia_7d'' = Inr [Num (Fin 10), Null, Num (Fin 2000)]
   \<and> list_all numeric [Num (Fin 10), Null, Num (Fin 2000)]
   \<and> (\<exists>mn mx.
      chequeo_incidencia inc_normal
        = Inr (if en_rango mn \<and> en_rango mx then DentroRango mn mx else FueraRango mn mx)
      \<and> (definidos (map f64_of [Num (Fin 10), Null, Num (Fin 2000)]) = [] \<longrightarrow> mn = None \<and> mx = None)
      \<and> (definidos (map f64_of [Num (Fin 10), Null, Num (Fin 2000)]) \<noteq> [] \<longrightarrow>
            (\<exists>lo hi. mn = Some lo \<and> mx = Some hi
               \<and> lo \<in> set (definidos (map f64_of [Num (Fin 10), Null, Num (Fin 2000)])) \<and> hi \<in> set (definidos (map f64_of [Num (Fin 10), Null, Num (Fin 2000)]))
               \<and> list_all (\<lambda>x. xle lo x \<and> xle x hi) (definidos (map f64_of [Num (Fin 10), Null, Num (Fin 2000)]))))
      \<and> (en_rango mn \<and> en_rango mx \<longleftrightarrow>
            definidos (map f64_of [Num (Fin 10), Null, Num (Fin 2000)]) \<noteq> []
            \<and> list_all (\<lambda>x. xle (Fin 0) x \<and> xle x (Fin 2000)) (definidos (map f64_of [Num (Fin 10), Null, Num (Fin 2000)]))))
   \<and> chequeo_incidencia inc_normal = Inr (DentroRango (Some (Fin 10)) (Some (Fin 2000)))
   \<and> chequeo_incidencia inc_alta = Inr (FueraRango (Some (Fin 10)) (Some (Fin 2500)))
   \<and> chequeo_incidencia inc_vacia = Inr (FueraRango None None)"
proof -
  have h1: "get_col inc_normal ''incidencia_7d'' = Inr [Num (Fin 10), Null, Num (Fin 2000)]"
    by code_simp
  have h2: "list_all numeric [Num (Fin 10), Null, Num (Fin 2000)]" by simp
  have v1: "chequeo_incidencia inc_normal = Inr (DentroRango (Some (Fin 10)) (Some (Fin 2000)))"
    by code_simp
  have v2: "chequeo_incidencia inc_alta = Inr (FueraRango (Some (Fin 10)) (Some (Fin 2500)))"
    by code_simp
  have v3: "chequeo_incidencia inc_vacia = Inr (FueraRango None None)"
    by code_simp
  show ?thesis
    using h1 h2 v1 v2 v3 chequeo_incidencia_rango [OF h1 h2]
    by (intro conjI) assumption+
qed

section \<open>The quality gate\<close>

lemma chequear_datos_closed:
  assumes d: "map_of (cols df) ''date'' = Some d"
    and c: "map_of (cols df) ''country'' = Some c"
    and p: "map_of (cols df) ''population'' = Some p"
  shows "chequear_datos parse hoy df =
     Inr (set_col df ''date'' (map (coerce_cell parse) d),
          [if 0 < length (filter (\<lambda>x. date_gt x hoy) (map (coerce_cell parse) d))
           then AlertaFechas (length (filter (\<lambda>x. date_gt x hoy) (map (coerce_cell parse) d)))
           else FechasValidas,
           if 0 < length (filter isna c) + length (filter isna (map (coerce_cell parse) d))
                  + length (filter isna p)
           then AlertaNulos (length (filter isna c) + length (filter isna (map (coerce_cell parse) d))
                  + length (filter isna p))
           else SinNulos,
           if 0 < length (filter id (duplicated (rows
                    \<lparr>nrows = nrows df,
                     cols = [(''country'', c), (''date'', map (coerce_cell parse) d)]\<rparr>)))
           then AlertaDuplicados (length (filter id (duplicated (rows
                    \<lparr>nrows = nrows df,
                     cols = [(''country'', c), (''date'', map (coerce_cell parse) d)]\<rparr>))))
           else SinDuplicados])"
  by (simp add: chequear_datos_def get_col_def set_col_def update_conv' d c p Let_def
      select_cols_def columnas_clave_def to_datetime_coerce_def filter_rows_def
      filter_map comp_def)


lemma keys_set_col:
  "map_of (cols df) k = Some s \<Longrightarrow> map fst (cols (set_col df k s')) = map fst (cols df)"
  by (auto simp add: set_col_def update_keys dest: map_of_SomeD intro: image_eqI [where x = "(k, s)"])

text \<open>
  Claim C3, as amended. On every raw table that has the columns \<open>date\<close>, \<open>country\<close> and
  \<open>population\<close> the quality gate raises nothing and returns the table it was given with
  the same rows and the same columns, in which every column other than \<open>date\<close> is
  unchanged and every cell of \<open>date\<close> is replaced by its parsed timestamp, or by the
  missing value when it does not parse. Besides that it prints three lines, one for
  each check: future dates, missing keys, duplicate keys.
\<close>

theorem chequear_datos_marco:
  assumes d: "get_col df ''date'' = Inr d" and c: "get_col df ''country'' = Inr c"
    and p: "get_col df ''population'' = Inr p"
  shows "\<exists>df' n1 n2 n3.
      chequear_datos parse hoy df
        = Inr (df', [if 0 < n1 then AlertaFechas n1 else FechasValidas,
                     if 0 < n2 then AlertaNulos n2 else SinNulos,
                     if 0 < n3 then AlertaDuplicados n3 else SinDuplicados])
      \<and> nrows df' = nrows df \<and> map fst (cols df') = map fst (cols df)
      \<and> get_col df' ''date'' = Inr (map (coerce_cell parse) d)
      \<and> (\<forall>k. k \<noteq> ''date'' \<longrightarrow> get_col df' k = get_col df k)"
proof -
  note m = d [unfolded get_col_Inr_iff] c [unfolded get_col_Inr_iff] p [unfolded get_col_Inr_iff]
  let ?df' = "set_col df ''date'' (map (coerce_cell parse) d)"
  have "nrows ?df' = nrows df" by simp
  moreover have "map fst (cols ?df') = map fst (cols df)"
    using m(1) by (rule keys_set_col)
  moreover have "get_col ?df' ''date'' = Inr (map (coerce_cell parse) d)" by simp
  moreover have "\<forall>k. k \<noteq> ''date'' \<longrightarrow> get_col ?df' k = get_col df k" by simp
  ultimately show ?thesis
    using chequear_datos_closed [OF m, of parse hoy] by blast
qed

theorem chequear_datos_marco_witness:
  "get_col cruda ''date'' = Inr [Str ''2024-01-01'', Str ''sin fecha'']
   \<and> get_col cruda ''country'' = Inr [Str ''Ecuador'', Str ''Ecuador'']
   \<and> get_col cruda ''population'' = Inr [Num (Fin 1000000), Num (Fin 1000000)]
   \<and> (\<exists>df' n1 n2 n3.
      chequear_datos fechas 20000 cruda
        = Inr (df', [if 0 < n1 then AlertaFechas n1 else FechasValidas,
                     if 0 < n2 then AlertaNulos n2 else SinNulos,
                     if 0 < n3 then AlertaDuplicados n3 else SinDuplicados])
      \<and> nrows df' = nrows cruda \<and> map fst (cols df') = map fst (cols cruda)
      \<and> get_col df' ''date'' = Inr (map (coerce_cell fechas) [Str ''2024-01-01'', Str ''sin fecha''])
      \<and> (\<forall>k. k \<noteq> ''date'' \<longrightarrow> get_col df' k = get_col cruda k))
   \<and> chequear_datos fechas 20000 cruda
       = Inr (cruda\<lparr>cols := [(''country'', [Str ''Ecuador'', Str ''Ecuador'']),
                               (''date'', [Date 19723, Null]),
                               (''new_cases'', [Num (Fin 100), Num (Fin 200)]),
                               (''people_vaccinated'', [Num (Fin 1), Num (Fin 2)]),
                               (''population'', [Num (Fin 1000000), Num (Fin 1000000)])]\<rparr>,
              [FechasValidas, AlertaNulos 1, SinDuplicados])"
proof -
  have h1: "get_col cruda ''date'' = Inr [Str ''2024-01-01'', Str ''sin fecha'']"
    by code_simp
  have h2: "get_col cruda ''country'' = Inr [Str ''Ecuador'', Str ''Ecuador'']"
    by code_simp
  have h3: "get_col cruda ''population'' = Inr [Num (Fin 1000000), Num (Fin 1000000)]"
    by code_simp
  have v: "chequear_datos fechas 20000 cruda
       = Inr (cruda\<lparr>cols := [(''country'', [Str ''Ecuador'', Str ''Ecuador'']),
                               (''date'', [Date 19723, Null]),
                               (''new_cases'', [Num (Fin 100), Num (Fin 200)]),
                               (''people_vaccinated'', [Num (Fin 1), Num (Fin 2)]),
                               (''population'', [Num (Fin 1000000), Num (Fin 1000000)])]\<rparr>,
              [FechasValidas, AlertaNulos 1, SinDuplicados])"
    by code_simp
  show ?thesis
    using h1 h2 h3 v chequear_datos_marco [OF h1 h2 h3, of fechas 20000]
    by (intro conjI) assumption+
qed

text \<open>
  The claim as stated fails: the gate changes the cells of the date column (a string
  becomes a timestamp, a string that does not parse is lost to the missing value), and
  on a table without a date column it raises.
\<close>

theorem chequear_datos_cambia_fechas:
  "get_col cruda ''date'' = Inr [Str ''2024-01-01'', Str ''sin fecha'']
   \<and> arg_col (chequear_datos fechas 20000 cruda) ''date'' = Inr [Date 19723, Null]
   \<and> chequear_datos fechas 20000 empty_frame = Inl (KeyError ''date'')"
  by code_simp

section \<open>Row masks and the cleaner\<close>

lemma length_mask_then [simp]: "length (mask_then m1 m2) = length m1"
  by (induction m1 m2 rule: mask_then.induct) simp_all

lemma select_select: "select m2 (select m1 xs) = select (mask_then m1 m2) xs"
proof (induction m1 m2 arbitrary: xs rule: mask_then.induct)
  case (1 m2)
  then show ?case by simp
next
  case (2 m1 m2)
  then show ?case by (cases xs) simp_all
next
  case (3 m1)
  then show ?case by (cases xs) simp_all
next
  case (4 m1 b m2)
  then show ?case by (cases xs) simp_all
qed

lemma select_nth:
  "i < length m \<Longrightarrow> i < length xs \<Longrightarrow> m ! i
   \<Longrightarrow> select m xs ! length (filter id (take i m)) = xs ! i"
proof (induction m arbitrary: xs i)
  case Nil
  then show ?case by simp
next
  case (Cons b m)
  then obtain x xs' where xs: "xs = x # xs'" by (cases xs) auto
  show ?case
  proof (cases i)
    case 0
    then show ?thesis using Cons.prems xs by simp
  next
    case (Suc j)
    then show ?thesis using Cons xs by simp
  qed
qed

lemma get_col_filter_rows:
  "get_col (filter_rows df m) k
     = (case get_col df k of Inl e \<Rightarrow> Inl e | Inr s \<Rightarrow> Inr (select m s))"
proof -
  have "map_of (map (\<lambda>cs. (fst cs, select m (snd cs))) xs) k
        = map_option (select m) (map_of xs k)" for xs :: "(string \<times> cell list) list"
    by (induction xs) auto
  then show ?thesis
    by (simp add: get_col_def filter_rows_def split: option.splits)
qed

lemma lookup_cols_get:
  "lookup_cols cs ks = Inr r \<Longrightarrow> k \<in> set ks \<Longrightarrow> map_of r k = map_of cs k \<and> map_of cs k \<noteq> None"
proof (induction ks arbitrary: r)
  case Nil
  then show ?case by simp
next
  case (Cons a ks)
  then show ?case
    by (auto split: option.splits sum.splits)
qed

lemma select_cols_get:
  assumes "select_cols df ks = Inr out" "k \<in> set ks"
  shows "\<exists>s. get_col df k = Inr s \<and> get_col out k = Inr s"
proof -
  from assms(1) obtain r where r: "lookup_cols (cols df) ks = Inr r" "out = \<lparr>nrows = nrows df, cols = r\<rparr>"
    by (auto simp add: select_cols_def bindE_def split: sum.splits)
  from lookup_cols_get [OF r(1) assms(2)] show ?thesis
    by (auto simp add: get_col_def r(2))
qed

lemma bindE_eq_Inr: "bindE m f = Inr r \<longleftrightarrow> (\<exists>v. m = Inr v \<and> f v = Inr r)"
  by (cases m) simp_all

lemma datos_procesados_mask:
  assumes "datos_procesados df = Inr (out, lg)"
  shows "\<exists>keep. length keep = nrows df \<and>
     (\<forall>k\<in>set columnas. \<exists>s. get_col df k = Inr s \<and> get_col out k = Inr (select keep s))"
proof -
  from assms obtain d1 country res where
    d1: "dropna df [''new_cases'', ''people_vaccinated''] = Inr d1"
    and co: "get_col (drop_duplicates d1) ''country'' = Inr country"
    and res: "select_cols (filter_rows (drop_duplicates d1) (map (\<lambda>c. c \<in> set paises) country)) columnas = Inr res"
    and out: "out = res"
    by (auto simp add: datos_procesados_def bindE_eq_Inr Let_def)
  from d1 obtain sub where sub: "select_cols df [''new_cases'', ''people_vaccinated''] = Inr sub"
    and d1': "d1 = filter_rows df (map (\<lambda>r. list_all (\<lambda>c. \<not> isna c) r) (rows sub))"
    by (auto simp add: dropna_def bindE_eq_Inr)
  have ns: "nrows sub = nrows df"
    using sub by (auto simp add: select_cols_def bindE_eq_Inr)
  define m1 where "m1 = map (\<lambda>r. list_all (\<lambda>c. \<not> isna c) r) (rows sub)"
  define m2 where "m2 = map Not (duplicated (rows d1))"
  define m3 where "m3 = map (\<lambda>c. c \<in> set paises) country"
  define keep where "keep = mask_then (mask_then m1 m2) m3"
  have l: "length keep = nrows df"
    by (simp add: keep_def m1_def rows_def ns)
  have "\<exists>s. get_col df k = Inr s \<and> get_col out k = Inr (select keep s)" if k: "k \<in> set columnas" for k
  proof -
    from select_cols_get [OF res k] obtain s3 where
      s3: "get_col (filter_rows (drop_duplicates d1) m3) k = Inr s3" "get_col out k = Inr s3"
      by (auto simp add: out m3_def)
    then obtain s where s: "get_col df k = Inr s" "s3 = select m3 (select m2 (select m1 s))"
      by (auto simp add: get_col_filter_rows drop_duplicates_def d1' m1_def m2_def
          split: sum.splits)
    then show ?thesis using s3 by (auto simp add: keep_def select_select)
  qed
  then show ?thesis using l by blast
qed

lemma incidencia_fecha:
  assumes d: "get_col df ''date'' = Inr d" and t: "list_all datetime_cell d"
    and r: "metrica_incidencia_7d parse df = Inr (a, b)"
  shows "get_col b ''fecha'' = Inr d"
proof -
  note m = d [unfolded get_col_Inr_iff]
  from r obtain out x where
    o: "select_cols (set_col (set_col (set_col df ''date'' d) ''incidencia_diaria'' x) ''incidencia_7d''
          (map of_f64 (groupby_transform
             (case get_col df ''country'' of Inr c \<Rightarrow> c | Inl e \<Rightarrow> []) None (rolling 7 1 mean)
             (map f64_of x))))
        [''date'', ''country'', ''incidencia_7d''] = Inr out"
    and b: "b = rename out [(''date'', ''fecha''), (''country'', pais)]"
    unfolding metrica_incidencia_7d_def
    by (auto simp add: bindE_eq_Inr d to_datetime_id [OF t] Let_def to_f64_def
        split: if_splits)
  from select_cols_get [OF o, of "''date''"] have "get_col out ''date'' = Inr d"
    by simp
  moreover from o have "map fst (cols out) = [''date'', ''country'', ''incidencia_7d'']"
    by (auto simp add: select_cols_def bindE_eq_Inr split: option.splits sum.splits)
  ultimately show ?thesis
    unfolding b by (auto simp add: get_col_def rename_def map_eq_Cons_conv split: option.splits)
qed


lemma factor_crec_fecha:
  assumes d: "get_col df ''date'' = Inr d" and t: "list_all datetime_cell d"
    and r: "metrica_factor_crec_7d parse df = Inr (a, b)"
  shows "get_col b ''semana_fin'' = Inr d"
proof -
  from r obtain out x y z where
    o: "select_cols (set_col (set_col (set_col (set_col df ''date'' d)
            ''casos_semana_actual'' x) ''casos_semana_prev'' y) ''factor_crec_7d'' z)
        [''date'', ''country'', ''casos_semana_actual'', ''factor_crec_7d''] = Inr out"
    and b: "b = rename out [(''date'', ''semana_fin''), (''country'', pais),
                           (''casos_semana_actual'', ''casos_semana'')]"
    unfolding metrica_factor_crec_7d_def
    by (auto simp add: bindE_eq_Inr d to_datetime_id [OF t] Let_def)
  from select_cols_get [OF o, of "''date''"] have "get_col out ''date'' = Inr d"
    by simp
  moreover from o have "map fst (cols out)
      = [''date'', ''country'', ''casos_semana_actual'', ''factor_crec_7d'']"
    by (auto simp add: select_cols_def bindE_eq_Inr split: option.splits sum.splits)
  ultimately show ?thesis
    unfolding b by (auto simp add: get_col_def rename_def map_eq_Cons_conv split: option.splits)
qed

lemma coerce_datetime: "datetime_cell (coerce_cell parse c)"
  by (cases c) (auto simp add: coerce_cell_def split: option.splits)

lemma coerce_unparsable: "to_datetime_cell parse c = None \<Longrightarrow> coerce_cell parse c = Null"
  by (simp add: coerce_cell_def)

section \<open>Dates that do not parse\<close>

lemma split_at_null:
  assumes i: "i < length xs" and n: "xs ! i = Null"
  shows "length (filter (\<lambda>x. date_gt x hoy) xs)
           = length (filter (\<lambda>x. date_gt x hoy) (take i xs @ drop (Suc i) xs))"
    and "length (filter isna xs) = Suc (length (filter isna (take i xs @ drop (Suc i) xs)))"
proof -
  have xs: "xs = take i xs @ Null # drop (Suc i) xs"
    using i n by (metis id_take_nth_drop)
  show "length (filter (\<lambda>x. date_gt x hoy) xs)
           = length (filter (\<lambda>x. date_gt x hoy) (take i xs @ drop (Suc i) xs))"
    by (subst xs) simp
  show "length (filter isna xs) = Suc (length (filter isna (take i xs @ drop (Suc i) xs)))"
    by (subst xs) (simp add: isna_def)
qed

text \<open>
  Claim C10. Let row \<open>i\<close> of a raw table (with the columns \<open>date\<close>, \<open>country\<close> and
  \<open>population\<close>) hold a date that does not parse. The quality gate returns the table
  with the missing value as the date of row \<open>i\<close>. The row does not count as a future
  date: the first line printed counts the rows after today among the other rows only.
  The row counts as a missing key: the second line is the alert, and its total is one
  more than the missing values of \<open>country\<close>, of \<open>population\<close> and of the dates of the
  other rows. The missing date goes on downstream: the cleaner, run on the gate's table,
  copies the dates of the rows it keeps (so row \<open>i\<close>, when kept, has the missing value in
  the cleaned table), and both metric ops return these dates unchanged as \<open>fecha\<close> and
  \<open>semana_fin\<close>, from where the sink writes them.
\<close>

theorem fechas_no_legibles:
  assumes d: "get_col df ''date'' = Inr d" and c: "get_col df ''country'' = Inr c"
    and p: "get_col df ''population'' = Inr p"
    and i: "i < length d" and bad: "to_datetime_cell parse (d ! i) = None"
  shows "\<exists>df' d' l1 l2 l3.
      chequear_datos parse hoy df = Inr (df', [l1, l2, l3])
      \<and> get_col df' ''date'' = Inr d' \<and> length d' = length d
      \<and> d' ! i = Null \<and> \<not> date_gt (d' ! i) hoy
      \<and> l1 = (if 0 < length (filter (\<lambda>x. date_gt x hoy) (take i d' @ drop (Suc i) d'))
               then AlertaFechas (length (filter (\<lambda>x. date_gt x hoy) (take i d' @ drop (Suc i) d')))
               else FechasValidas)
      \<and> l2 = AlertaNulos (Suc (length (filter isna c)
                 + length (filter isna (take i d' @ drop (Suc i) d')) + length (filter isna p)))
      \<and> (\<forall>out lg. datos_procesados df' = Inr (out, lg) \<longrightarrow>
            (\<exists>keep. get_col out ''date'' = Inr (select keep d')
               \<and> (i < length keep \<and> keep ! i \<longrightarrow>
                     select keep d' ! length (filter id (take i keep)) = Null)
               \<and> (\<forall>a b. metrica_incidencia_7d parse out = Inr (a, b) \<longrightarrow>
                     get_col b ''fecha'' = Inr (select keep d'))
               \<and> (\<forall>a b. metrica_factor_crec_7d parse out = Inr (a, b) \<longrightarrow>
                     get_col b ''semana_fin'' = Inr (select keep d'))))"
proof -
  note m = d [unfolded get_col_Inr_iff] c [unfolded get_col_Inr_iff] p [unfolded get_col_Inr_iff]
  define d' where "d' = map (coerce_cell parse) d"
  define df' where "df' = set_col df ''date'' d'"
  have ld: "length d' = length d" by (simp add: d'_def)
  have di: "d' ! i = Null" using i bad by (simp add: d'_def coerce_unparsable)
  have i': "i < length d'" using i ld by simp
  note sp = split_at_null(1) [OF i' di, of hoy] split_at_null(2) [OF i' di]
  have gd: "get_col df' ''date'' = Inr d'" by (simp add: df'_def)
  have dt: "list_all datetime_cell d'"
    by (simp add: d'_def list_all_iff coerce_datetime)
  have run: "\<exists>l3. chequear_datos parse hoy df = Inr (df',
      [if 0 < length (filter (\<lambda>x. date_gt x hoy) (take i d' @ drop (Suc i) d'))
       then AlertaFechas (length (filter (\<lambda>x. date_gt x hoy) (take i d' @ drop (Suc i) d')))
       else FechasValidas,
       AlertaNulos (Suc (length (filter isna c)
                 + length (filter isna (take i d' @ drop (Suc i) d')) + length (filter isna p))),
       l3])"
    using chequear_datos_closed [OF m, of parse hoy] sp
    by (simp add: d'_def [symmetric] df'_def)
  have down: "\<exists>keep. get_col out ''date'' = Inr (select keep d')
               \<and> (i < length keep \<and> keep ! i \<longrightarrow>
                     select keep d' ! length (filter id (take i keep)) = Null)
               \<and> (\<forall>a b. metrica_incidencia_7d parse out = Inr (a, b) \<longrightarrow>
                     get_col b ''fecha'' = Inr (select keep d'))
               \<and> (\<forall>a b. metrica_factor_crec_7d parse out = Inr (a, b) \<longrightarrow>
                     get_col b ''semana_fin'' = Inr (select keep d'))"
    if dp: "datos_procesados df' = Inr (out, lg)" for out lg
  proof -
    from datos_procesados_mask [OF dp] obtain keep where
      k: "\<forall>k\<in>set columnas. \<exists>s. get_col df' k = Inr s \<and> get_col out k = Inr (select keep s)"
      by blast
    have "''date'' \<in> set columnas" by (simp add: columnas_def)
    with k gd have od: "get_col out ''date'' = Inr (select keep d')" by fastforce
    have sdt: "list_all datetime_cell (select keep d')"
      using dt set_select [of keep d'] by (auto simp add: list_all_iff)
    have row: "i < length keep \<and> keep ! i \<longrightarrow>
                     select keep d' ! length (filter id (take i keep)) = Null"
      using i' di by (auto simp add: select_nth)
    have "\<forall>a b. metrica_incidencia_7d parse out = Inr (a, b) \<longrightarrow>
                     get_col b ''fecha'' = Inr (select keep d')"
      using incidencia_fecha [OF od sdt] by blast
    moreover have "\<forall>a b. metrica_factor_crec_7d parse out = Inr (a, b) \<longrightarrow>
                     get_col b ''semana_fin'' = Inr (select keep d')"
      using factor_crec_fecha [OF od sdt] by blast
    ultimately show ?thesis using od row by blast
  qed
  have ng: "\<not> date_gt (d' ! i) hoy" by (simp add: di)
  from run obtain l3 where run': "chequear_datos parse hoy df = Inr (df',
      [if 0 < length (filter (\<lambda>x. date_gt x hoy) (take i d' @ drop (Suc i) d'))
       then AlertaFechas (length (filter (\<lambda>x. date_gt x hoy) (take i d' @ drop (Suc i) d')))
       else FechasValidas,
       AlertaNulos (Suc (length (filter isna c)
                 + length (filter isna (take i d' @ drop (Suc i) d')) + length (filter isna p))),
       l3])"
    by blast
  show ?thesis
    apply (rule exI [of _ df'])
    apply (rule exI [of _ d'])
    apply (intro exI conjI)
           apply (rule run')
          apply (rule gd)
         apply (rule ld)
        apply (rule di)
       apply (rule ng)
      apply (rule refl)
     apply (rule refl)
    using down apply blast
    done
qed


theorem fechas_no_legibles_witness:
  "get_col cruda ''date'' = Inr [Str ''2024-01-01'', Str ''sin fecha'']
   \<and> get_col cruda ''country'' = Inr [Str ''Ecuador'', Str ''Ecuador'']
   \<and> get_col cruda ''population'' = Inr [Num (Fin 1000000), Num (Fin 1000000)]
   \<and> (1::nat) < length [Str ''2024-01-01'', Str ''sin fecha'']
   \<and> to_datetime_cell fechas ([Str ''2024-01-01'', Str ''sin fecha''] ! 1) = None
   \<and> (\<exists>df' d' l1 l2 l3.
      chequear_datos fechas 20000 cruda = Inr (df', [l1, l2, l3])
      \<and> get_col df' ''date'' = Inr d' \<and> length d' = length [Str ''2024-01-01'', Str ''sin fecha'']
      \<and> d' ! 1 = Null \<and> \<not> date_gt (d' ! 1) 20000
      \<and> l1 = (if 0 < length (filter (\<lambda>x. date_gt x 20000) (take 1 d' @ drop (Suc 1) d'))
               then AlertaFechas (length (filter (\<lambda>x. date_gt x 20000) (take 1 d' @ drop (Suc 1) d')))
               else FechasValidas)
      \<and> l2 = AlertaNulos (Suc (length (filter isna [Str ''Ecuador'', Str ''Ecuador''])
                 + length (filter isna (take 1 d' @ drop (Suc 1) d')) + length (filter isna [Num (Fin 1000000), Num (Fin 1000000)])))
      \<and> (\<forall>out lg. datos_procesados df' = Inr (out, lg) \<longrightarrow>
            (\<exists>keep. get_col out ''date'' = Inr (select keep d')
               \<and> (1 < length keep \<and> keep ! 1 \<longrightarrow>
                     select keep d' ! length (filter id (take 1 keep)) = Null)
               \<and> (\<forall>a b. metrica_incidencia_7d fechas out = Inr (a, b) \<longrightarrow>
                     get_col b ''fecha'' = Inr (select keep d'))
               \<and> (\<forall>a b. metrica_factor_crec_7d fechas out = Inr (a, b) \<longrightarrow>
                     get_col b ''semana_fin'' = Inr (select keep d')))))
   \<and> arg_col (chequear_datos fechas 20000 cruda) ''date'' = Inr [Date 19723, Null]
   \<and> sheets (pipeline_post_reader FreshCopy fechas 20000 cruda)
       = Inr [(''datos_procesados'', columnas,
               [[Str ''Ecuador'', Date 19723, Num (Fin 100), Num (Fin 1), Num (Fin 1000000)],
                [Str ''Ecuador'', Null, Num (Fin 200), Num (Fin 2), Num (Fin 1000000)]]),
              (''incidencia_7d'', [''fecha'', pais, ''incidencia_7d''],
               [[Date 19723, Str ''Ecuador'', Num (Fin 10)],
                [Null, Str ''Ecuador'', Num (Fin 15)]]),
              (''factor_crec_7d'', [''semana_fin'', pais, ''casos_semana'', ''factor_crec_7d''],
               [[Date 19723, Str ''Ecuador'', Null, Null],
                [Null, Str ''Ecuador'', Null, Null]])]"
proof -
  have h1: "get_col cruda ''date'' = Inr [Str ''2024-01-01'', Str ''sin fecha'']"
    by code_simp
  have h2: "get_col cruda ''country'' = Inr [Str ''Ecuador'', Str ''Ecuador'']"
    by code_simp
  have h3: "get_col cruda ''population'' = Inr [Num (Fin 1000000), Num (Fin 1000000)]"
    by code_simp
  have h4: "(1::nat) < length [Str ''2024-01-01'', Str ''sin fecha'']" by simp
  have h5: "to_datetime_cell fechas ([Str ''2024-01-01'', Str ''sin fecha''] ! 1) = None"
    by code_simp
  have v1: "arg_col (chequear_datos fechas 20000 cruda) ''date'' = Inr [Date 19723, Null]"
    by code_simp
  have v2: "sheets (pipeline_post_reader FreshCopy fechas 20000 cruda)
       = Inr [(''datos_procesados'', columnas,
               [[Str ''Ecuador'', Date 19723, Num (Fin 100), Num (Fin 1), Num (Fin 1000000)],
                [Str ''Ecuador'', Null, Num (Fin 200), Num (Fin 2), Num (Fin 1000000)]]),
              (''incidencia_7d'', [''fecha'', pais, ''incidencia_7d''],
               [[Date 19723, Str ''Ecuador'', Num (Fin 10)],
                [Null, Str ''Ecuador'', Num (Fin 15)]]),
              (''factor_crec_7d'', [''semana_fin'', pais, ''casos_semana'', ''factor_crec_7d''],
               [[Date 19723, Str ''Ecuador'', Null, Null],
                [Null, Str ''Ecuador'', Null, Null]])]"
    by code_simp
  show ?thesis
    using h1 h2 h3 h4 h5 v1 v2 fechas_no_legibles [OF h1 h2 h3 h4 h5, of 20000]
    by (intro conjI) assumption+
qed

section \<open>The cleaned table after the metric ops\<close>

text \<open>
  Claim C7 (the metric derivations leave the cleaned table as it is, and the sink
  receives the table the cleaner produced, same rows and same column set). The cleaner
  returns the five columns of \<open>columnas\<close>. Each metric op assigns into the frame it is
  given: the incidence op leaves its argument with the columns \<open>incidencia_diaria\<close> and
  \<open>incidencia_7d\<close> added, the growth op adds three more. When the job hands the same
  object to the three consumers of the cleaned table, the sheet \<open>datos_procesados\<close> of
  the artifact has ten columns; only when each consumer receives a copy of its own does the
  sheet have the cleaner's five.
\<close>

theorem hoja_datos_procesados_modificada:
  "arg_header (datos_procesados ecuador2) = Inr columnas
   \<and> arg_header (metrica_incidencia_7d no_parse ecuador2)
       = Inr (columnas @ [''incidencia_diaria'', ''incidencia_7d''])
   \<and> arg_header (metrica_factor_crec_7d no_parse ecuador2)
       = Inr (columnas @ [''casos_semana_actual'', ''casos_semana_prev'', ''factor_crec_7d''])
   \<and> headers (pipeline_post_reader SameObject no_parse 20000 ecuador2)
       = Inr [(''datos_procesados'',
               columnas @ [''incidencia_diaria'', ''incidencia_7d'', ''casos_semana_actual'',
                           ''casos_semana_prev'', ''factor_crec_7d'']),
              (''incidencia_7d'', [''fecha'', pais, ''incidencia_7d'']),
              (''factor_crec_7d'', [''semana_fin'', pais, ''casos_semana'', ''factor_crec_7d''])]
   \<and> headers (pipeline_post_reader FreshCopy no_parse 20000 ecuador2)
       = Inr [(''datos_procesados'', columnas),
              (''incidencia_7d'', [''fecha'', pais, ''incidencia_7d'']),
              (''factor_crec_7d'', [''semana_fin'', pais, ''casos_semana'', ''factor_crec_7d''])]"
  by code_simp

section \<open>From the raw table to the cleaned table\<close>

lemma length_dup_from [simp]: "length (dup_from seen xs) = length xs"
  by (induction xs arbitrary: seen) simp_all

lemma length_duplicated [simp]: "length (duplicated xs) = length xs"
  by (simp add: duplicated_def)

lemma length_rows [simp]: "length (rows df) = nrows df"
  by (simp add: rows_def)

lemma wf_filter_rows:
  "wf_frame df \<Longrightarrow> length m = nrows df \<Longrightarrow> wf_frame (filter_rows df m)"
  by (auto simp add: wf_frame_def filter_rows_def comp_def list_all_iff length_select)

lemma nrows_filter_rows [simp]: "nrows (filter_rows df m) = length (filter id m)"
  by (simp add: filter_rows_def)

lemma wf_get_col: "wf_frame df \<Longrightarrow> get_col df k = Inr s \<Longrightarrow> length s = nrows df"
  by (auto simp add: wf_frame_def get_col_Inr_iff list_all_iff dest: map_of_SomeD)

lemma select_map_map: "select (map f xs) (map g xs) = map g (filter f xs)"
  by (induction xs) simp_all

lemma select_self: "list_all P (select (map P xs) xs)"
  using select_map_map [of P xs "\<lambda>x. x"] by (simp add: list_all_iff)

lemma list_all_select: "list_all P xs \<Longrightarrow> list_all P (select m xs)"
  using set_select [of m xs] by (auto simp add: list_all_iff)

lemma select_cols_columnas:
  assumes "select_cols df columnas = Inr out"
  shows "\<exists>c0 c1 c2 c3 c4. cols out = [(''country'', c0), (''date'', c1), (''new_cases'', c2),
           (''people_vaccinated'', c3), (''population'', c4)]
         \<and> get_col df ''country'' = Inr c0 \<and> get_col df ''date'' = Inr c1
         \<and> get_col df ''new_cases'' = Inr c2 \<and> get_col df ''people_vaccinated'' = Inr c3
         \<and> get_col df ''population'' = Inr c4 \<and> nrows out = nrows df"
  using assms
  by (auto simp add: select_cols_def columnas_def bindE_eq_Inr get_col_def
      split: option.splits sum.splits)

lemma wf_set_col:
  "wf_frame df \<Longrightarrow> map_of (cols df) k = Some s \<Longrightarrow> length s' = nrows df
   \<Longrightarrow> wf_frame (set_col df k s')"
proof -
  have sub: "set (AList.update k s' al) \<subseteq> insert (k, s') (set al)"
    for al :: "(string \<times> cell list) list"
    by (induction al) auto
  assume "wf_frame df" "map_of (cols df) k = Some s" "length s' = nrows df"
  then show ?thesis
    using sub [of "cols df"]
    by (auto simp add: wf_frame_def set_col_def distinct_update list_all_iff)
qed

lemma select_cols_columnas_ok:
  assumes "get_col df ''country'' = Inr c0" "get_col df ''date'' = Inr c1"
    "get_col df ''new_cases'' = Inr c2" "get_col df ''people_vaccinated'' = Inr c3"
    "get_col df ''population'' = Inr c4"
  shows "select_cols df columnas =
     Inr \<lparr>nrows = nrows df, cols = [(''country'', c0), (''date'', c1), (''new_cases'', c2),
           (''people_vaccinated'', c3), (''population'', c4)]\<rparr>"
  using assms by (simp add: select_cols_def columnas_def get_col_Inr_iff)

lemma dropna_not_null:
  assumes a: "length a = n" and b: "length b = n"
  shows "list_all (\<lambda>c. \<not> isna c)
           (select (map (\<lambda>r. list_all (\<lambda>c. \<not> isna c) r)
              (rows \<lparr>nrows = n, cols = [(ka, a), (kb, b)]\<rparr>)) a)"
    and "list_all (\<lambda>c. \<not> isna c)
           (select (map (\<lambda>r. list_all (\<lambda>c. \<not> isna c) r)
              (rows \<lparr>nrows = n, cols = [(ka, a), (kb, b)]\<rparr>)) b)"
proof -
  let ?f = "\<lambda>i. \<not> isna (a ! i) \<and> \<not> isna (b ! i)"
  have m: "map (\<lambda>r. list_all (\<lambda>c. \<not> isna c) r) (rows \<lparr>nrows = n, cols = [(ka, a), (kb, b)]\<rparr>)
           = map ?f [0..<n]"
    by (simp add: rows_def row_def)
  have a': "a = map (\<lambda>i. a ! i) [0..<n]" using a map_nth [of a] by simp
  have b': "b = map (\<lambda>i. b ! i) [0..<n]" using b map_nth [of b] by simp
  have "select (map ?f [0..<n]) a = map (\<lambda>i. a ! i) (filter ?f [0..<n])"
    by (subst a') (rule select_map_map)
  then show "list_all (\<lambda>c. \<not> isna c)
           (select (map (\<lambda>r. list_all (\<lambda>c. \<not> isna c) r)
              (rows \<lparr>nrows = n, cols = [(ka, a), (kb, b)]\<rparr>)) a)"
    unfolding m by (simp add: list_all_iff)
  have "select (map ?f [0..<n]) b = map (\<lambda>i. b ! i) (filter ?f [0..<n])"
    by (subst b') (rule select_map_map)
  then show "list_all (\<lambda>c. \<not> isna c)
           (select (map (\<lambda>r. list_all (\<lambda>c. \<not> isna c) r)
              (rows \<lparr>nrows = n, cols = [(ka, a), (kb, b)]\<rparr>)) b)"
    unfolding m by (simp add: list_all_iff)
qed

lemma number_not_null: "number_or_null c \<Longrightarrow> \<not> isna c \<Longrightarrow> number_cell c"
  by (cases c) (simp_all add: isna_def)


lemma raw_table_cols:
  assumes "raw_table df"
  obtains c0 c1 c2 c3 c4 where
    "get_col df ''country'' = Inr c0" "get_col df ''date'' = Inr c1"
    "get_col df ''new_cases'' = Inr c2" "get_col df ''people_vaccinated'' = Inr c3"
    "get_col df ''population'' = Inr c4"
    "list_all number_or_null c2" "list_all numeric c4"
  using assms
  by (auto simp add: raw_table_def columnas_def get_col_def col_def split: option.splits)

text \<open>
  The hypothesis of the statements about the metric ops is met within the pipeline: on
  every raw table the quality gate and then the cleaner succeed, and the table the
  cleaner returns is a cleaned table.
\<close>

lemma limpieza_produce_tabla_limpia:
  assumes raw: "raw_table raw"
  shows "\<exists>df1 l1 df2 l2.
      chequear_datos parse hoy raw = Inr (df1, l1)
      \<and> datos_procesados df1 = Inr (df2, l2)
      \<and> cleaned_table df2"
proof -
  from raw obtain c0 c1 c2 c3 c4 where
    g0: "get_col raw ''country'' = Inr c0" and g1: "get_col raw ''date'' = Inr c1"
    and g2: "get_col raw ''new_cases'' = Inr c2"
    and g3: "get_col raw ''people_vaccinated'' = Inr c3"
    and g4: "get_col raw ''population'' = Inr c4"
    and t2: "list_all number_or_null c2" and t4: "list_all numeric c4"
    by (rule raw_table_cols)
  have wf: "wf_frame raw" using raw by (simp add: raw_table_def)
  define n where "n = nrows raw"
  note len = wf_get_col [OF wf g0] wf_get_col [OF wf g1] wf_get_col [OF wf g2]
    wf_get_col [OF wf g3] wf_get_col [OF wf g4]
  define d' where "d' = map (coerce_cell parse) c1"
  define df1 where "df1 = set_col raw ''date'' d'"
  have wf1: "wf_frame df1"
    unfolding df1_def using wf g1 [unfolded get_col_Inr_iff]
    by (rule wf_set_col) (simp add: d'_def len)
  have n1: "nrows df1 = nrows raw" by (simp add: df1_def)
  have h: "get_col df1 ''country'' = Inr c0" "get_col df1 ''date'' = Inr d'"
    "get_col df1 ''new_cases'' = Inr c2" "get_col df1 ''people_vaccinated'' = Inr c3"
    "get_col df1 ''population'' = Inr c4"
    by (simp_all add: df1_def g0 g2 g3 g4)
  from chequear_datos_closed [OF g1 [unfolded get_col_Inr_iff] g0 [unfolded get_col_Inr_iff]
      g4 [unfolded get_col_Inr_iff], of parse hoy]
  obtain l1 where gate: "chequear_datos parse hoy raw = Inr (df1, l1)"
    by (simp add: df1_def d'_def)
  define sub where "sub = \<lparr>nrows = nrows df1, cols = [(''new_cases'', c2), (''people_vaccinated'', c3)]\<rparr>"
  define m1 where "m1 = map (\<lambda>r. list_all (\<lambda>c. \<not> isna c) r) (rows sub)"
  define d1 where "d1 = filter_rows df1 m1"
  have dn: "dropna df1 [''new_cases'', ''people_vaccinated''] = Inr d1"
    using h by (simp add: dropna_def select_cols_def get_col_Inr_iff d1_def m1_def sub_def)
  have lm1: "length m1 = nrows df1" by (simp add: m1_def sub_def)
  have wfd1: "wf_frame d1" unfolding d1_def using wf1 lm1 by (rule wf_filter_rows)
  define m2 where "m2 = map Not (duplicated (rows d1))"
  define d2 where "d2 = filter_rows d1 m2"
  have d2': "drop_duplicates d1 = d2" by (simp add: drop_duplicates_def d2_def m2_def)
  have wfd2: "wf_frame d2"
    unfolding d2_def using wfd1 by (rule wf_filter_rows) (simp add: m2_def)
  define k0 where "k0 = select m2 (select m1 c0)"
  have gk0: "get_col d2 ''country'' = Inr k0"
    by (simp add: d2_def d1_def get_col_filter_rows h k0_def)
  define m3 where "m3 = map (\<lambda>c. c \<in> set paises) k0"
  define df_proc where "df_proc = filter_rows d2 m3"
  have wfp: "wf_frame df_proc"
    unfolding df_proc_def using wfd2
    by (rule wf_filter_rows) (simp add: m3_def wf_get_col [OF wfd2 gk0])
  define sel :: "cell list \<Rightarrow> cell list"
    where "sel = (\<lambda>s. select m3 (select m2 (select m1 s)))"
  have gp: "get_col df_proc ''country'' = Inr (sel c0)" "get_col df_proc ''date'' = Inr (sel d')"
    "get_col df_proc ''new_cases'' = Inr (sel c2)"
    "get_col df_proc ''people_vaccinated'' = Inr (sel c3)"
    "get_col df_proc ''population'' = Inr (sel c4)"
    by (simp_all add: df_proc_def d2_def d1_def get_col_filter_rows h sel_def)
  define out where "out = \<lparr>nrows = nrows df_proc,
      cols = [(''country'', sel c0), (''date'', sel d'), (''new_cases'', sel c2),
              (''people_vaccinated'', sel c3), (''population'', sel c4)]\<rparr>"
  have sc: "select_cols df_proc columnas = Inr out"
    unfolding out_def using gp by (rule select_cols_columnas_ok)
  have run: "datos_procesados df1 = Inr (out, [Procesados (nrows df_proc)])"
    by (simp add: datos_procesados_def dn d2' gk0 Let_def
        sc [unfolded df_proc_def m3_def] df_proc_def m3_def filter_map comp_def)
  have lens: "length (sel c0) = nrows df_proc" "length (sel d') = nrows df_proc"
    "length (sel c2) = nrows df_proc" "length (sel c3) = nrows df_proc"
    "length (sel c4) = nrows df_proc"
    using gp wfp by (simp_all add: wf_get_col)
  have wfo: "wf_frame out"
    by (simp add: wf_frame_def out_def lens)
  have p0: "list_all (\<lambda>c. c \<in> set paises) (sel c0)"
    unfolding sel_def k0_def [symmetric] m3_def by (rule select_self)
  have p1: "list_all datetime_cell (sel d')"
    unfolding sel_def
    by (intro list_all_select) (simp add: d'_def list_all_iff coerce_datetime)
  have nn: "list_all (\<lambda>c. \<not> isna c) (select m1 c2)" "list_all (\<lambda>c. \<not> isna c) (select m1 c3)"
    unfolding m1_def sub_def using len n1 by (simp_all add: dropna_not_null)
  have "list_all number_or_null (select m1 c2)"
    using t2 by (rule list_all_select)
  with nn(1) have "list_all number_cell (select m1 c2)"
    by (auto simp add: list_all_iff number_not_null)
  then have p2: "list_all number_cell (sel c2)"
    unfolding sel_def by (rule list_all_select [OF list_all_select])
  have p3: "list_all (\<lambda>c. \<not> isna c) (sel c3)"
    unfolding sel_def using nn(2) by (rule list_all_select [OF list_all_select])
  have p4: "list_all numeric (sel c4)"
    unfolding sel_def using t4 by (intro list_all_select)
  have "cleaned_table out"
    using wfo p0 p1 p2 p3 p4
    by (simp add: cleaned_table_def col_def out_def columnas_def)
  then show ?thesis using gate run by blast
qed

lemma limpieza_de_cruda:
  "raw_table cruda
   \<and> bindE (chequear_datos fechas 20000 cruda) (\<lambda>r. datos_procesados (fst r))
       = Inr (\<lparr>nrows = 2,
               cols = [(''country'', [Str ''Ecuador'', Str ''Ecuador'']),
                       (''date'', [Date 19723, Null]),
                       (''new_cases'', [Num (Fin 100), Num (Fin 200)]),
                       (''people_vaccinated'', [Num (Fin 1), Num (Fin 2)]),
                       (''population'', [Num (Fin 1000000), Num (Fin 1000000)])]\<rparr>,
              [Procesados 2])"
  by code_simp

text \<open>
  A table without rows that has the five columns goes through the whole pipeline, and
  the artifact holds three sheets with a header row only; it is the table without
  columns that the stages refuse.
\<close>

lemma tabla_sin_filas_con_columnas:
  "sheets (pipeline_post_reader FreshCopy parse hoy cabecera)
     = Inr [(''datos_procesados'', columnas, []),
            (''incidencia_7d'', [''fecha'', pais, ''incidencia_7d''], []),
            (''factor_crec_7d'', [''semana_fin'', pais, ''casos_semana'', ''factor_crec_7d''], [])]"
  by code_simp

end
